theory Spec2Isabelle
  imports Main "HOL-Library.Word"
begin

text \<open>
  A shallow embedding of the S3-netCDF library: the byte-stream object for an S3 store
  (\<open>s3FileObject\<close>) and the dataset layer over netCDF4 (\<open>s3Dataset\<close>, \<open>s3Group\<close>,
  \<open>s3Variable\<close>) with its aggregation of a variable over subarray files. Every function
  returns its exception as a value, and a method that changes its object returns the
  object after the call. The definitions come first, the properties after them.
\<close>

section \<open>Errors\<close>

text \<open>
  The exceptions the two source files raise, by class. \<open>APIException\<close> and
  \<open>IOException\<close> are the library's own classes; the others are Python built-ins
  (\<open>IOError\<close> is raised by the dataset constructor, \<open>UnboundLocalError\<close> and
  \<open>NameError\<close> by reading a local or global name that was never bound, \<open>TypeError\<close>
  by subscripting \<open>None\<close>) or raised by the netCDF4 library. The message strings are
  not modelled.
\<close>

datatype error =
    APIException
  | IOException
  | IOError
  | CFAError
  | IndexError
  | KeyError
  | AttributeError
  | ValueError
  | UnboundLocalError
  | NameError
  | TypeError
  | RuntimeError

type_synonym byte = "8 word"

section \<open>The byte-stream layer: \<open>s3FileObject\<close>\<close>

text \<open>
  The object store as the file object sees it through its connection: the objects by
  bucket and key. \<open>head_object\<close> answers with the object's length and raises
  \<open>ClientError\<close> for a key that is not there; \<open>list_objects_v2\<close> with the key as
  prefix lists the key itself when it exists. \<open>reachable\<close> is whether \<open>connect\<close> gets a
  connection, from the pool or by creating a client; when it is not, the pool has none
  and \<open>create_client\<close> raises \<open>ClientError\<close>.
\<close>

record s3_server =
  reachable :: bool
  objects :: "string \<times> string \<rightharpoonup> byte list"

text \<open>
  The fields of \<open>s3FileObject\<close> that \<open>connect\<close>, \<open>_getsize\<close> and \<open>seek\<close> read or
  write. The attribute \<open>_conn_obj\<close> does not exist before \<open>connect\<close>; \<open>connect\<close> sets it
  to what the connection pool hands out, which is \<open>None\<close> or a connection, and then to
  the connection it creates. \<open>current_part\<close> is \<open>None\<close> until \<open>connect\<close> sets it.
\<close>

datatype connection = Unset | NoConnection | Connected

record s3FileObject =
  bucket :: string
  fo_path :: string
  fo_mode :: string
  seek_pos :: int
  part_size :: int
  conn_obj :: connection
  current_part :: "nat option"

text \<open>
  \<open>s3FileObject.__init__\<close>, with the bucket and the path already taken from the URI:
  position 0, no connection attribute, and the part size used when none is given or
  configured.
\<close>

definition s3FileObject_init :: "string \<Rightarrow> string \<Rightarrow> string \<Rightarrow> s3FileObject" where
  "s3FileObject_init b p m =
     \<lparr>bucket = b, fo_path = p, fo_mode = m, seek_pos = 0,
      part_size = 50 * 1024 * 1024, conn_obj = Unset, current_part = None\<rparr>"

text \<open>
  \<open>s3FileObject.connect\<close>. The statements run in the source's order, and the object keeps
  what was assigned before an exception: the result is the outcome together with the
  object after the call.
\<close>

definition connect :: "s3_server \<Rightarrow> s3FileObject \<Rightarrow> (error + bool) \<times> s3FileObject" where
  "connect srv f =
     (if \<not> reachable srv then (Inl IOException, f\<lparr>conn_obj := NoConnection\<rparr>)
      else
        let f1 = f\<lparr>conn_obj := Connected\<rparr> in
        if CHR ''r'' \<in> set (fo_mode f1) \<and> CHR ''*'' \<notin> set (fo_path f1)
           \<and> CHR ''?'' \<notin> set (fo_path f1)
           \<and> objects srv (bucket f1, fo_path f1) = None
        then (Inl IOException, f1)
        else
          let f2 = (if CHR ''w'' \<in> set (fo_mode f1)
                    then f1\<lparr>current_part := Some 1\<rparr> else f1) in
          if CHR ''a'' \<in> set (fo_mode f2) \<or> CHR ''+'' \<in> set (fo_mode f2)
          then (Inl APIException, f2)
          else (Inr True, f2))"

text \<open>
  \<open>s3FileObject._getsize\<close>: the part size when writing, else the content length of the
  object. A missing \<open>_conn_obj\<close> is an \<open>AttributeError\<close> naming \<open>_conn_obj\<close>, which
  \<open>_handle_connection_exception\<close> turns into an \<open>APIException\<close>; with \<open>_conn_obj\<close>
  \<open>None\<close> the \<open>AttributeError\<close> names \<open>conn\<close> and is raised again; a \<open>ClientError\<close>
  becomes an \<open>IOException\<close>.
\<close>

definition getsize :: "s3_server \<Rightarrow> s3FileObject \<Rightarrow> error + int" where
  "getsize srv f =
     (if CHR ''w'' \<in> set (fo_mode f) then Inr (part_size f)
      else if conn_obj f = Unset then Inl APIException
      else if conn_obj f = NoConnection then Inl AttributeError
      else (case objects srv (bucket f, fo_path f) of
              None \<Rightarrow> Inl IOException
            | Some bs \<Rightarrow> Inr (int (length bs))))"

text \<open>
  \<open>s3FileObject.seek\<close>. \<open>whence\<close> is the integer the caller passes: \<open>io.SEEK_SET = 0\<close>,
  \<open>io.SEEK_CUR = 1\<close>, \<open>io.SEEK_END = 2\<close>; for any other value none of the three branches
  runs and the candidate position stays the current one.
\<close>

definition SEEK_SET :: int where "SEEK_SET = 0"
definition SEEK_CUR :: int where "SEEK_CUR = 1"
definition SEEK_END :: int where "SEEK_END = 2"

definition seek :: "s3_server \<Rightarrow> s3FileObject \<Rightarrow> int \<Rightarrow> int \<Rightarrow> (error + int) \<times> s3FileObject" where
  "seek srv f offset whence =
     (if fo_mode f = ''w'' then (Inl IOException, f)
      else (case getsize srv f of
              Inl e \<Rightarrow> (Inl e, f)
            | Inr sz \<Rightarrow>
                let pos = (if whence = SEEK_SET then offset
                           else if whence = SEEK_CUR then seek_pos f + offset
                           else if whence = SEEK_END then sz - offset
                           else seek_pos f) in
                if pos \<ge> sz then (Inl IOException, f)
                else if pos < 0 then (Inl IOException, f)
                else (Inr pos, f\<lparr>seek_pos := pos\<rparr>)))"

text \<open>A reader connected to a ten-byte object, for the examples below.\<close>

definition example_server :: s3_server where
  "example_server =
     \<lparr>reachable = True,
      objects = [(''bucket'', ''key.nc'') \<mapsto> [1, 2, 3, 4, 5, 6, 7, 8, 9, 10]]\<rparr>"

definition example_reader :: s3FileObject where
  "example_reader = snd (connect example_server (s3FileObject_init ''bucket'' ''key.nc'' ''r''))"

section \<open>Python values and the magic-number classifier\<close>

text \<open>
  The classifier compares values of different Python types, so the three types that
  meet there are kept apart. The source is Python 3 (Cython with
  \<open>language_level=3\<close>): indexing a \<open>bytes\<close> object gives an \<open>int\<close>, slicing gives
  \<open>bytes\<close>, and \<open>==\<close> between an \<open>int\<close> and a \<open>bytes\<close> or \<open>str\<close> value is \<open>False\<close>.
\<close>

datatype pyval = PyInt int | PyBytes "byte list" | PyStr string

fun py_eq :: "pyval \<Rightarrow> pyval \<Rightarrow> bool" where
  "py_eq (PyInt a) (PyInt b) = (a = b)"
| "py_eq (PyBytes a) (PyBytes b) = (a = b)"
| "py_eq (PyStr a) (PyStr b) = (a = b)"
| "py_eq _ _ = False"

text \<open>\<open>data[i]\<close> raises \<open>IndexError\<close> past the end; \<open>data[a:b]\<close> never raises.\<close>

definition bytes_getitem :: "byte list \<Rightarrow> nat \<Rightarrow> error + pyval" where
  "bytes_getitem data i =
     (if i < length data then Inr (PyInt (uint (data ! i))) else Inl IndexError)"

definition bytes_slice :: "byte list \<Rightarrow> nat \<Rightarrow> nat \<Rightarrow> pyval" where
  "bytes_slice data a b = PyBytes (take (b - a) (drop a data))"

text \<open>
  A chain \<open>data[i] == v and data[j] == w and ...\<close>: evaluated left to right, stopping
  at the first comparison that is false, so later indices are not read.
\<close>

fun index_eq_chain :: "byte list \<Rightarrow> (nat \<times> pyval) list \<Rightarrow> error + bool" where
  "index_eq_chain data [] = Inr True"
| "index_eq_chain data ((i, v) # rest) =
     (case bytes_getitem data i of
        Inl e \<Rightarrow> Inl e
      | Inr x \<Rightarrow> if py_eq x v then index_eq_chain data rest else Inr False)"

text \<open>
  \<open>s3Dataset._interpret_netCDF_filetype\<close>. The literals are the source's:
  \<open>b'HDF'\<close>, the one-byte strings \<open>b'\016'\<close>, \<open>b'\003'\<close>, \<open>b'\023'\<close>, \<open>b'\001'\<close>
  (octal), \<open>b'CDF'\<close>, the integer \<open>1\<close> and the strings \<open>'2'\<close> and \<open>'5'\<close>. The
  result is the pair of the file type and the file version.
\<close>

definition interpret_netCDF_filetype :: "byte list \<Rightarrow> error + (string \<times> pyval)" where
  "interpret_netCDF_filetype data =
     (if py_eq (bytes_slice data 1 4) (PyBytes [0x48, 0x44, 0x46])
      then Inr (''NETCDF4'', PyInt 5)
      else
        (case index_eq_chain data
                [(0, PyBytes [0x0E]), (1, PyBytes [0x03]),
                 (2, PyBytes [0x13]), (3, PyBytes [0x01])] of
           Inl e \<Rightarrow> Inl e
         | Inr True \<Rightarrow> Inr (''NETCDF4'', PyInt 4)
         | Inr False \<Rightarrow>
             if py_eq (bytes_slice data 0 3) (PyBytes [0x43, 0x44, 0x46])
             then
               (case bytes_getitem data 3 of
                  Inl e \<Rightarrow> Inl e
                | Inr file_version \<Rightarrow>
                    if py_eq file_version (PyInt 1)
                    then Inr (''NETCDF3_CLASSIC'', file_version)
                    else if py_eq file_version (PyStr ''2'')
                    then Inr (''NETCDF3_64BIT_OFFSET'', file_version)
                    else if py_eq file_version (PyStr ''5'')
                    then Inr (''NETCDF3_64BIT_DATA'', file_version)
                    else Inr (''NOT_NETCDF'', PyInt 1))
             else Inr (''NOT_NETCDF'', PyInt 0)))"


section \<open>Arrays\<close>

text \<open>
  An n-dimensional array (a numpy array, or the data of a netCDF variable): its shape
  and its cells by coordinate. A cell outside the shape is \<open>None\<close>. The element type
  is a parameter.
\<close>

record 'a ndarray =
  shape :: "nat list"
  cells :: "nat list \<rightharpoonup> 'a"

text \<open>
  A slice \<open>start:stop:step\<close> as the index layer hands it out, with its bounds resolved
  to naturals. In a dimension of length \<open>n\<close> it selects \<open>start, start + step, ...\<close>
  below \<open>min stop n\<close>: a slice never reads or writes out of range, it is clipped.
\<close>

type_synonym slice = "nat \<times> nat \<times> nat"

definition slice_indices :: "nat \<Rightarrow> slice \<Rightarrow> nat list" where
  "slice_indices n sl =
     (case sl of (a, b, s) \<Rightarrow> map (\<lambda>k. a + k * s) [0..<(min b n - a + s - 1) div s])"

text \<open>
  The indices a tuple of slices selects in each dimension of an array of the given
  shape. More slices than dimensions is an \<open>IndexError\<close>, a step of zero a
  \<open>ValueError\<close>; dimensions without a slice are taken whole.
\<close>

fun selection :: "nat list \<Rightarrow> slice list \<Rightarrow> error + nat list list" where
  "selection [] [] = Inr []"
| "selection [] (sl # sls) = Inl IndexError"
| "selection (n # ns) [] = Inr (map (\<lambda>m. [0..<m]) (n # ns))"
| "selection (n # ns) ((a, b, s) # sls) =
     (if s = 0 then Inl ValueError
      else (case selection ns sls of
              Inl e \<Rightarrow> Inl e
            | Inr rest \<Rightarrow> Inr (slice_indices n (a, b, s) # rest)))"

text \<open>The coordinates of a shape, and of a selection, in row-major order.\<close>

definition coords :: "nat list \<Rightarrow> nat list list" where
  "coords shp = product_lists (map (\<lambda>m. [0..<m]) shp)"

definition array_full :: "nat list \<Rightarrow> 'a \<Rightarrow> 'a ndarray" where
  "array_full shp x =
     \<lparr>shape = shp, cells = (\<lambda>c. if c \<in> set (coords shp) then Some x else None)\<rparr>"

text \<open>
  \<open>arr[slices]\<close>: the selected cells as an array of the selection's shape, in the same
  order.
\<close>

definition array_getitem :: "'a ndarray \<Rightarrow> slice list \<Rightarrow> error + 'a ndarray" where
  "array_getitem arr sls =
     (case selection (shape arr) sls of
        Inl e \<Rightarrow> Inl e
      | Inr sel \<Rightarrow>
          Inr \<lparr>shape = map length sel,
               cells = (\<lambda>c. case map_of (zip (coords (map length sel)) (product_lists sel)) c of
                              None \<Rightarrow> None
                            | Some c' \<Rightarrow> cells arr c')\<rparr>)"

text \<open>\<open>arr[slices] = x\<close> for a scalar \<open>x\<close>: every selected cell becomes \<open>x\<close>.\<close>

definition array_fill :: "'a ndarray \<Rightarrow> slice list \<Rightarrow> 'a \<Rightarrow> error + 'a ndarray" where
  "array_fill arr sls x =
     (case selection (shape arr) sls of
        Inl e \<Rightarrow> Inl e
      | Inr sel \<Rightarrow>
          Inr (arr\<lparr>cells := (\<lambda>c. if c \<in> set (product_lists sel) then Some x
                                 else cells arr c)\<rparr>))"

text \<open>
  Copying the cells of \<open>v\<close> onto the selected cells, both in row-major order. It is the
  common part of the two array assignments below, which differ in when they accept
  \<open>v\<close>.
\<close>

definition copy_cells :: "'a ndarray \<Rightarrow> nat list list \<Rightarrow> 'a ndarray \<Rightarrow> 'a ndarray" where
  "copy_cells arr sel v =
     arr\<lparr>cells := (\<lambda>c. case map_of (zip (product_lists sel) (coords (shape v))) c of
                          None \<Rightarrow> cells arr c
                        | Some c' \<Rightarrow> cells v c')\<rparr>"

text \<open>
  numpy's \<open>arr[slices] = v\<close> for an array \<open>v\<close>: cell by cell when \<open>v\<close> has the
  selection's shape, a fill when \<open>v\<close> has a single element, \<open>ValueError\<close> otherwise
  (numpy also broadcasts a source with unit or missing leading dimensions; no index
  entry needs that, and the model raises there).
\<close>

definition array_setitem :: "'a ndarray \<Rightarrow> slice list \<Rightarrow> 'a ndarray \<Rightarrow> error + 'a ndarray" where
  "array_setitem arr sls v =
     (case selection (shape arr) sls of
        Inl e \<Rightarrow> Inl e
      | Inr sel \<Rightarrow>
          if map length sel = shape v then Inr (copy_cells arr sel v)
          else (case (coords (shape v), cells v (map (\<lambda>_. 0) (shape v))) of
                  ([c0], Some x) \<Rightarrow>
                    Inr (arr\<lparr>cells := (\<lambda>c. if c \<in> set (product_lists sel) then Some x
                                           else cells arr c)\<rparr>)
                | _ \<Rightarrow> Inl ValueError))"

text \<open>
  netCDF4's \<open>var[slices] = v\<close>: the data is written in row-major order when it has as
  many elements as the selection (reshaped if need be), a single element fills the
  selection, and otherwise the size of the data does not conform to the slice, an
  \<open>IndexError\<close>.
\<close>

definition nc_array_setitem :: "'a ndarray \<Rightarrow> slice list \<Rightarrow> 'a ndarray \<Rightarrow> error + 'a ndarray" where
  "nc_array_setitem arr sls v =
     (case selection (shape arr) sls of
        Inl e \<Rightarrow> Inl e
      | Inr sel \<Rightarrow>
          if prod_list (map length sel) = prod_list (shape v) then Inr (copy_cells arr sel v)
          else (case (coords (shape v), cells v (map (\<lambda>_. 0) (shape v))) of
                  ([c0], Some x) \<Rightarrow>
                    Inr (arr\<lparr>cells := (\<lambda>c. if c \<in> set (product_lists sel) then Some x
                                           else cells arr c)\<rparr>)
                | _ \<Rightarrow> Inl IndexError))"

text \<open>An array from its shape and its elements in row-major order.\<close>

definition array_of :: "nat list \<Rightarrow> 'a list \<Rightarrow> 'a ndarray" where
  "array_of shp xs = \<lparr>shape = shp, cells = map_of (zip (coords shp) xs)\<rparr>"

text \<open>The elements of an array in row-major order.\<close>

definition elements :: "'a ndarray \<Rightarrow> 'a option list" where
  "elements arr = map (cells arr) (coords (shape arr))"

section \<open>The structured-file provider: netCDF4 objects\<close>

text \<open>
  What the source uses of the netCDF4 library's objects. An attribute value is a string,
  a number or a list of numbers; \<open>_FillValue\<close> has the element type of the variable and is
  kept in a field of its own (\<open>None\<close>: the variable has no such attribute).
\<close>

datatype attr_value = AttrStr string | AttrInt int | AttrInts "int list"

record 'a nc_variable =
  ncv_dimensions :: "string list"
  ncv_attrs :: "string \<rightharpoonup> attr_value"
  FillValue :: "'a option"
  ncv_data :: "'a ndarray"

record 'a nc_group =
  nc_attrs :: "string \<rightharpoonup> attr_value"
  nc_dimensions :: "string \<rightharpoonup> nat"
  nc_variables :: "string \<rightharpoonup> 'a nc_variable"

record 'a nc_dataset = "'a nc_group" +
  nc_groups :: "string \<rightharpoonup> 'a nc_group"
  nc_format :: string

text \<open>\<open>getncattr\<close> of a netCDF4 object raises \<open>AttributeError\<close> for a missing attribute.\<close>

definition nc_getncattr :: "(string \<rightharpoonup> attr_value) \<Rightarrow> string \<Rightarrow> error + attr_value" where
  "nc_getncattr attrs name =
     (case attrs name of None \<Rightarrow> Inl AttributeError | Some v \<Rightarrow> Inr v)"

text \<open>
  \<open>netCDF4.Dataset(..., mode='w', format=file_type)\<close>: an empty dataset of that format;
  the library raises \<open>ValueError\<close> for a format it does not know.
\<close>

definition nc_formats :: "string list" where
  "nc_formats = [''NETCDF4'', ''NETCDF4_CLASSIC'', ''NETCDF3_CLASSIC'',
                 ''NETCDF3_64BIT_OFFSET'', ''NETCDF3_64BIT_DATA'', ''NETCDF3_64BIT'']"

definition nc_Dataset_new :: "string \<Rightarrow> error + 'a nc_dataset" where
  "nc_Dataset_new file_type =
     (if file_type \<in> set nc_formats
      then Inr \<lparr>nc_attrs = Map.empty, nc_dimensions = Map.empty, nc_variables = Map.empty,
                nc_groups = Map.empty, nc_format = file_type\<rparr>
      else Inl ValueError)"

section \<open>The aggregation structures (CFA)\<close>

text \<open>
  Modelled from the spec: the classes of \<open>S3netCDF4.CFA._CFAClasses\<close>, which are not
  among the sources. The records hold the fields the two source files read and write through their methods
  (\<open>getName\<close>, \<open>getType\<close>, \<open>getDimensions\<close>, \<open>getMetadata\<close>, \<open>metadata\<close>,
  \<open>getCFAVersion\<close>, \<open>getGroup\<close>, \<open>createGroup\<close>, \<open>createVariable\<close>,
  \<open>writePartition\<close>). A partition has its index in the partition matrix, its location
  in the variable (start and end in each dimension), its shape and the URI of its
  subarray file; \<open>var_partitions\<close> are the partitions recorded by \<open>writePartition\<close>.
\<close>

record CFADimension =
  dim_name :: string
  dim_len :: "nat option"
  axis_type :: string
  dim_type :: "string option"
  dim_metadata :: "string \<rightharpoonup> attr_value"

record CFAPartition =
  p_index :: "nat list"
  p_location :: "(nat \<times> nat) list"
  p_shape :: "nat list"
  p_file :: string

record CFAVariable =
  var_name :: string
  nc_dtype :: string
  dim_names :: "string list"
  subarray_shape :: "nat list"
  max_subarray_size :: nat
  var_group :: string
  var_metadata :: "string \<rightharpoonup> attr_value"
  var_partitions :: "CFAPartition list"

record CFAGroup =
  grp_name :: string
  grp_metadata :: "string \<rightharpoonup> attr_value"
  grp_dimensions :: "string \<rightharpoonup> CFADimension"
  grp_variables :: "string \<rightharpoonup> CFAVariable"

record CFADataset =
  cfa_name :: string
  cfa_format :: string
  cfa_version :: string
  cfa_groups :: "string \<rightharpoonup> CFAGroup"
  cfa_metadata :: "string \<rightharpoonup> attr_value"

text \<open>
  Modelled from the spec: the constructors of the aggregation's group and dataset,
  whose classes are not among the sources. A new group has its name and nothing else;
  \<open>CFADataset_with_root\<close> is \<open>CFADataset(name, format, cfa_version)\<close> followed by
  \<open>createGroup("root")\<close>.
\<close>

definition CFAGroup_new :: "string \<Rightarrow> CFAGroup" where
  "CFAGroup_new name =
     \<lparr>grp_name = name, grp_metadata = Map.empty, grp_dimensions = Map.empty,
      grp_variables = Map.empty\<rparr>"

text \<open>
  Modelled from the spec: an aggregation dataset as the constructor of \<open>s3Dataset\<close>
  makes it, with its synthetic group \<open>root\<close>.
\<close>

definition CFADataset_with_root :: "string \<Rightarrow> string \<Rightarrow> string \<Rightarrow> CFADataset" where
  "CFADataset_with_root name fmt version =
     \<lparr>cfa_name = name, cfa_format = fmt, cfa_version = version,
      cfa_groups = [''root'' \<mapsto> CFAGroup_new ''root''], cfa_metadata = Map.empty\<rparr>"

section \<open>Opening a dataset: \<open>s3Dataset.__init__\<close>\<close>

text \<open>
  The file object of the master's open-file record: whether it is on a remote system,
  and the bytes of the file. \<open>read_from(offset, length)\<close> is a method of a backend that
  is not among the sources.
\<close>

record file_object =
  remote_system :: bool
  fo_bytes :: "byte list"

text \<open>
  Modelled from the spec: \<open>read_from\<close> of the byte-stream provider
  (``\<open>read(offset, length) \<rightarrow> bytes\<close>''), the \<open>length\<close> bytes from \<open>offset\<close> on, fewer at
  the end of the file.
\<close>

definition read_from :: "file_object \<Rightarrow> nat \<Rightarrow> nat \<Rightarrow> byte list" where
  "read_from fo off len = take len (drop off (fo_bytes fo))"

text \<open>
  What the constructor calls and the sources do not hold: the file manager's
  \<open>request_file(filename, mode)\<close> for the master (it may raise), the netCDF4 library
  reading an existing file's bytes, and the CFA parser (\<open>is_file\<close>, then \<open>read\<close>), whose
  result is the aggregation structure of the file, \<open>None\<close> when it is not an aggregated
  file.
\<close>

record 'a environment =
  request_master :: "string \<Rightarrow> string \<Rightarrow> error + file_object"
  nc_read :: "byte list \<Rightarrow> error + 'a nc_dataset"
  cfa_parse :: "'a nc_dataset \<Rightarrow> string \<Rightarrow> CFADataset option"

text \<open>
  The file state the constructor creates, in order: the file manager, the request for
  the master file (with the mode passed on), the netCDF dataset (its name, mode and
  format).
\<close>

datatype event =
    FileManagerCreated
  | FileRequested string string
  | DatasetOpened string string string

text \<open>
  The fields of \<open>s3Dataset\<close> set by the constructor: \<open>_mode\<close>,
  \<open>_creation_params["format"]\<close>, \<open>_cfa_dataset\<close> (\<open>None\<close> also when it was never
  assigned), \<open>_nc_dataset\<close> and the file object of \<open>_managed_object\<close>.
\<close>

record 'a s3Dataset =
  ds_mode :: string
  creation_format :: string
  cfa_dataset :: "CFADataset option"
  nc_dataset :: "'a nc_dataset"
  managed_file :: file_object

text \<open>
  \<open>s3Dataset.__init__(filename, mode, format, cfa_version)\<close>; the other keyword
  arguments are passed through to netCDF4 unread. The result is the file state created
  so far and either the exception or the dataset. \<open>fh_mode\<close> is assigned only when the
  mode has no \<open>b\<close>, and read unconditionally in the request for the master file.
\<close>

definition s3Dataset_init ::
  "'a environment \<Rightarrow> string \<Rightarrow> string \<Rightarrow> string \<Rightarrow> string \<Rightarrow> event list \<times> (error + 'a s3Dataset)" where
  "s3Dataset_init env filename mode format cfa_ver =
     (if cfa_ver = ''0.5'' \<and> (format = ''CFA3'' \<or> format = ''NETCDF3_CLASSIC'')
      then ([], Inl APIException)
      else if CHR ''b'' \<in> set mode then ([FileManagerCreated], Inl UnboundLocalError)
      else
        let fh_mode = mode @ ''b'';
            evs = [FileManagerCreated, FileRequested filename fh_mode] in
        (case request_master env filename fh_mode of
           Inl e \<Rightarrow> (evs, Inl e)
         | Inr fo \<Rightarrow>
             if mode = ''w'' then
               let (file_type, cfa) =
                     (if format = ''CFA4'' \<or> format = ''DEFAULT''
                      then (''NETCDF4'',
                            Some (CFADataset_with_root filename ''NETCDF4'' cfa_ver))
                      else if format = ''CFA3''
                      then (''NETCDF3_CLASSIC'',
                            Some (CFADataset_with_root filename ''NETCDF3_CLASSIC'' cfa_ver))
                      else (format, None));
                   nc_name = (if remote_system fo then ''inmemory.nc'' else filename) in
               (case nc_Dataset_new file_type of
                  Inl e \<Rightarrow> (evs, Inl e)
                | Inr nc \<Rightarrow>
                    (evs @ [DatasetOpened nc_name mode file_type],
                     Inr \<lparr>ds_mode = mode, creation_format = file_type, cfa_dataset = cfa,
                          nc_dataset = nc, managed_file = fo\<rparr>))
             else if mode = ''r'' then
               (case interpret_netCDF_filetype (read_from fo 0 6) of
                  Inl e \<Rightarrow> (evs, Inl e)
                | Inr (file_type, file_version) \<Rightarrow>
                    if file_type = ''NOT_NETCDF'' then (evs, Inl IOError)
                    else
                      let nc_name = (if remote_system fo then ''inmemory.nc'' else filename) in
                      (case nc_read env (fo_bytes fo) of
                         Inl e \<Rightarrow> (evs, Inl e)
                       | Inr nc \<Rightarrow>
                           (evs @ [DatasetOpened nc_name mode file_type],
                            Inr \<lparr>ds_mode = mode, creation_format = format,
                                 cfa_dataset = cfa_parse env nc filename,
                                 nc_dataset = nc, managed_file = fo\<rparr>)))
             else (evs, Inl APIException)))"

text \<open>
  An environment for the examples: every file is local and holds the given bytes, the
  library reads any of them as an empty dataset, and no file is an aggregated one.
\<close>

definition local_env :: "byte list \<Rightarrow> 'a environment" where
  "local_env bs =
     \<lparr>request_master = (\<lambda>filename m. Inr \<lparr>remote_system = False, fo_bytes = bs\<rparr>),
      nc_read = (\<lambda>b. nc_Dataset_new ''NETCDF4''),
      cfa_parse = (\<lambda>nc filename. None)\<rparr>"

section \<open>Groups, dimensions and variables\<close>

text \<open>
  \<open>s3Group\<close> and \<open>s3Variable\<close>: the aggregation structure beside the netCDF4 object.
  A test such as \<open>hasattr(self, "_cfa_var") and self._cfa_var\<close> holds exactly when
  the field is not \<open>None\<close>. A variable holds its own copy of the aggregation structure
  it shares with its group in the source; no property below depends on the sharing.
\<close>

record 'a s3Group =
  cfa_grp :: "CFAGroup option"
  nc_grp :: "'a nc_group"

record 'a s3Variable =
  cfa_var :: "CFAVariable option"
  cfa_dim :: "CFADimension option"
  nc_var :: "'a nc_variable"

text \<open>
  The parent a dimension or variable is created in: a group (with the dataset that is
  the group's parent) or the dataset itself. \<open>hasattr(parent, "_cfa_grp")\<close> holds for
  a group, \<open>hasattr(parent, "_cfa_dataset")\<close> for a dataset.
\<close>

datatype 'a parent = ParentGroup "'a s3Group" "'a s3Dataset" | ParentDataset "'a s3Dataset"

subsection \<open>Dimensions\<close>

text \<open>
  Modelled from the spec: \<open>createDimension\<close> of the aggregation group, whose class is
  not among the sources. The dimension (name, declared length or unlimited, axis
  classification, attribute mapping) is entered under its name.
\<close>

definition cfa_createDimension :: "CFAGroup \<Rightarrow> string \<Rightarrow> nat option \<Rightarrow> string \<Rightarrow> CFAGroup" where
  "cfa_createDimension g name sz axis =
     g\<lparr>grp_dimensions := (grp_dimensions g)
          (name \<mapsto> \<lparr>dim_name = name, dim_len = sz, axis_type = axis,
                     dim_type = None, dim_metadata = Map.empty\<rparr>)\<rparr>"

text \<open>
  \<open>s3Dataset.createDimension\<close> through \<open>s3Dimension.create\<close> with the dataset as parent:
  on an aggregated dataset the dimension is created in the aggregation's root group
  first, and in every case in the netCDF dataset, where netCDF4 raises a \<open>RuntimeError\<close>
  for a name the dataset has already and keeps the old dimension. An unlimited dimension
  has length 0 there.
\<close>

definition s3Dataset_createDimension ::
  "'a s3Dataset \<Rightarrow> string \<Rightarrow> nat option \<Rightarrow> string \<Rightarrow> error + 'a s3Dataset" where
  "s3Dataset_createDimension ds dimname sz axis =
     (let nc' = (nc_dataset ds)\<lparr>nc_dimensions := (nc_dimensions (nc_dataset ds))
                   (dimname \<mapsto> (case sz of None \<Rightarrow> 0 | Some n \<Rightarrow> n))\<rparr> in
      case cfa_dataset ds of
        None \<Rightarrow>
          (case nc_dimensions (nc_dataset ds) dimname of
             Some _ \<Rightarrow> Inl RuntimeError
           | None \<Rightarrow> Inr (ds\<lparr>nc_dataset := nc'\<rparr>))
      | Some cds \<Rightarrow>
          (case cfa_groups cds ''root'' of
             None \<Rightarrow> Inl CFAError
           | Some root \<Rightarrow>
               (case nc_dimensions (nc_dataset ds) dimname of
                  Some _ \<Rightarrow> Inl RuntimeError
                | None \<Rightarrow>
                    Inr (ds\<lparr>cfa_dataset :=
                               Some (cds\<lparr>cfa_groups := (cfa_groups cds)
                                       (''root'' \<mapsto> cfa_createDimension root dimname sz axis)\<rparr>),
                             nc_dataset := nc'\<rparr>))))"

subsection \<open>Creating a variable: \<open>s3Variable.create\<close>\<close>

text \<open>
  The \<open>dimensions\<close> argument: the constructor tests that it is a tuple before anything
  else.
\<close>

datatype dimensions_arg = DimTuple "string list" | DimList "string list"

text \<open>
  Modelled from the spec: \<open>createVariable\<close> of the aggregation group, whose class is not
  among the sources. The variable structure holds the arguments of the call; the
  partition matrix it derives from \<open>subarray_shape\<close> and \<open>max_subarray_size\<close> is not
  modelled.
\<close>

definition cfa_createVariable ::
  "CFAGroup \<Rightarrow> string \<Rightarrow> string \<Rightarrow> string list \<Rightarrow> nat list \<Rightarrow> nat \<Rightarrow> CFAVariable" where
  "cfa_createVariable g name dtype dims sa_shape max_size =
     \<lparr>var_name = name, nc_dtype = dtype, dim_names = dims, subarray_shape = sa_shape,
      max_subarray_size = max_size, var_group = grp_name g, var_metadata = Map.empty,
      var_partitions = []\<rparr>"

text \<open>
  \<open>createVariable\<close> of a netCDF4 group or dataset: every dimension must exist
  (\<open>ValueError\<close> otherwise) and the name must be free (\<open>RuntimeError\<close> otherwise); the
  new variable has the dimensions' lengths as its shape and is filled with its fill
  value, the library's default \<open>dflt\<close> when none is given.
\<close>

definition nc_createVariable ::
  "'a nc_group \<Rightarrow> string \<Rightarrow> string list \<Rightarrow> 'a option \<Rightarrow> 'a \<Rightarrow> error + 'a nc_variable" where
  "nc_createVariable g name dims fill_value dflt =
     (if \<not> list_all (\<lambda>d. nc_dimensions g d \<noteq> None) dims then Inl ValueError
      else if nc_variables g name \<noteq> None then Inl RuntimeError
      else Inr \<lparr>ncv_dimensions = dims, ncv_attrs = Map.empty, FillValue = fill_value,
                ncv_data = array_full (map (\<lambda>d. the (nc_dimensions g d)) dims)
                             (case fill_value of None \<Rightarrow> dflt | Some x \<Rightarrow> x)\<rparr>)"

text \<open>
  The three ways \<open>create\<close> finds the aggregation group and the netCDF4 parent: a group
  with an aggregation group, a dataset with an aggregation dataset (its root group),
  or neither. The result is the aggregation group if there is one, the dataset and the
  netCDF4 group the variable is created in.
\<close>

definition create_parent ::
  "'a parent \<Rightarrow> error + (CFAGroup option \<times> 'a s3Dataset \<times> 'a nc_group)" where
  "create_parent par =
     (case par of
        ParentGroup g ds \<Rightarrow> Inr (cfa_grp g, ds, nc_grp g)
      | ParentDataset ds \<Rightarrow>
          (case cfa_dataset ds of
             None \<Rightarrow> Inr (None, ds, nc_group.truncate (nc_dataset ds))
           | Some cds \<Rightarrow>
               (case cfa_groups cds ''root'' of
                  None \<Rightarrow> Inl CFAError
                | Some root \<Rightarrow> Inr (Some root, ds, nc_group.truncate (nc_dataset ds)))))"

text \<open>
  \<open>s3Variable.create(parent, name, datatype, dimensions, fill_value, subarray_shape,
  max_subarray_size)\<close>; the compression and chunking arguments are passed to netCDF4
  unread. In an aggregation group a variable named like one of the group's dimensions is
  a dimension variable: it takes the dimension's structure and no variable structure.
  Any other variable gets a variable structure from \<open>createVariable\<close> of the aggregation
  group, which receives \<open>subarray_shape\<close> and \<open>max_subarray_size\<close>; if it has
  dimensions, the initial partition information is written for convention versions
  \<open>0.4\<close> and \<open>0.5\<close> and any other version is a \<open>CFAError\<close>. Last, the netCDF4 variable
  is created: with the dimension itself for a dimension variable, with no dimension for a
  field variable of an aggregation, with the given dimensions otherwise.
\<close>

definition s3Variable_create ::
  "'a parent \<Rightarrow> string \<Rightarrow> string \<Rightarrow> dimensions_arg \<Rightarrow> 'a option \<Rightarrow> 'a \<Rightarrow> nat list \<Rightarrow> nat
   \<Rightarrow> error + 'a s3Variable" where
  "s3Variable_create par name datatype dimensions fill_value dflt sa_shape max_size =
     (case dimensions of
        DimList _ \<Rightarrow> Inl APIException
      | DimTuple dims \<Rightarrow>
          (case create_parent par of
             Inl e \<Rightarrow> Inl e
           | Inr (cg_opt, ds, nc_parent) \<Rightarrow>
               let (cv, cd, nc_dims) =
                     (case cg_opt of
                        None \<Rightarrow> (None, None, dims)
                      | Some cg \<Rightarrow>
                          (case grp_dimensions cg name of
                             Some d \<Rightarrow> (None, Some (d\<lparr>dim_type := Some datatype\<rparr>), [name])
                           | None \<Rightarrow>
                               (Some (cfa_createVariable cg name datatype dims sa_shape max_size),
                                None, []))) in
               (case (case cv of
                        None \<Rightarrow> Inr ()
                      | Some v \<Rightarrow>
                          if length (dim_names v) \<noteq> 0 then
                            (case cfa_dataset ds of
                               None \<Rightarrow> Inl AttributeError
                             | Some cds \<Rightarrow>
                                 if cfa_version cds = ''0.5'' \<or> cfa_version cds = ''0.4''
                                 then Inr () else Inl CFAError)
                          else Inr ()) of
                  Inl e \<Rightarrow> Inl e
                | Inr _ \<Rightarrow>
                    (case nc_createVariable nc_parent name nc_dims fill_value dflt of
                       Inl e \<Rightarrow> Inl e
                     | Inr ncv \<Rightarrow> Inr \<lparr>cfa_var = cv, cfa_dim = cd, nc_var = ncv\<rparr>))))"

subsection \<open>Attributes\<close>

text \<open>
  \<open>getncattr\<close> of a variable, a group and a dataset: with an aggregation structure the
  name is looked up in its metadata dictionary, and a \<open>KeyError\<close> there is answered by
  the netCDF4 object's \<open>getncattr\<close>; without one the netCDF4 object is asked at once.
\<close>

definition s3Variable_getncattr :: "'a s3Variable \<Rightarrow> string \<Rightarrow> error + attr_value" where
  "s3Variable_getncattr v name =
     (case cfa_var v of
        Some cv \<Rightarrow>
          (case var_metadata cv name of
             Some x \<Rightarrow> Inr x
           | None \<Rightarrow> nc_getncattr (ncv_attrs (nc_var v)) name)
      | None \<Rightarrow>
          (case cfa_dim v of
             Some cd \<Rightarrow>
               (case dim_metadata cd name of
                  Some x \<Rightarrow> Inr x
                | None \<Rightarrow> nc_getncattr (ncv_attrs (nc_var v)) name)
           | None \<Rightarrow> nc_getncattr (ncv_attrs (nc_var v)) name))"

definition s3Group_getncattr :: "'a s3Group \<Rightarrow> string \<Rightarrow> error + attr_value" where
  "s3Group_getncattr g name =
     (case cfa_grp g of
        Some cg \<Rightarrow>
          (case grp_metadata cg name of
             Some x \<Rightarrow> Inr x
           | None \<Rightarrow> nc_getncattr (nc_attrs (nc_grp g)) name)
      | None \<Rightarrow> nc_getncattr (nc_attrs (nc_grp g)) name)"

definition s3Dataset_getncattr :: "'a s3Dataset \<Rightarrow> string \<Rightarrow> error + attr_value" where
  "s3Dataset_getncattr ds name =
     (case cfa_dataset ds of
        Some cds \<Rightarrow>
          (case cfa_metadata cds name of
             Some x \<Rightarrow> Inr x
           | None \<Rightarrow> nc_getncattr (nc_attrs (nc_dataset ds)) name)
      | None \<Rightarrow> nc_getncattr (nc_attrs (nc_dataset ds)) name)"

text \<open>
  Attribute access on a netCDF4 variable through its \<open>__getattr__\<close>: a name in the
  library's list of private attributes is looked up in the dictionary the variable
  builds of its netCDF attributes, where an absent key is a \<open>KeyError\<close>; any other name
  is passed to \<open>getncattr\<close>. The library's list is a parameter.
\<close>

definition nc_variable_getattr :: "string list \<Rightarrow> 'a nc_variable \<Rightarrow> string \<Rightarrow> error + attr_value" where
  "nc_variable_getattr nc_private ncv name =
     (if name \<in> set nc_private then
        (case ncv_attrs ncv name of None \<Rightarrow> Inl KeyError | Some x \<Rightarrow> Inr x)
      else nc_getncattr (ncv_attrs ncv) name)"

text \<open>The private attributes of \<open>s3Variable\<close>.\<close>

definition s3Variable_private_atts :: "string list" where
  "s3Variable_private_atts = [''_cfa_var'', ''_cfa_dim'', ''_nc_var'', ''_file_manager'', ''parent'']"

text \<open>
  \<open>s3Variable.__getattr__\<close>, which Python calls for a name that the instance and its
  class do not define. A private name of \<open>s3Variable\<close> is then absent from the instance
  dictionary, and indexing it is a \<open>KeyError\<close>; a private name of netCDF4 goes to the
  netCDF4 variable; any other name is indexed in the metadata dictionary of the variable
  structure, or else of the dimension structure, where an absent key is a \<open>KeyError\<close>;
  without either structure the netCDF4 variable is asked.
\<close>

definition s3Variable_getattr :: "string list \<Rightarrow> 'a s3Variable \<Rightarrow> string \<Rightarrow> error + attr_value" where
  "s3Variable_getattr nc_private v name =
     (if name \<in> set s3Variable_private_atts then Inl KeyError
      else if name \<in> set nc_private then nc_variable_getattr nc_private (nc_var v) name
      else (case cfa_var v of
              Some cv \<Rightarrow>
                (case var_metadata cv name of None \<Rightarrow> Inl KeyError | Some x \<Rightarrow> Inr x)
            | None \<Rightarrow>
                (case cfa_dim v of
                   Some cd \<Rightarrow>
                     (case dim_metadata cd name of None \<Rightarrow> Inl KeyError | Some x \<Rightarrow> Inr x)
                 | None \<Rightarrow> nc_variable_getattr nc_private (nc_var v) name)))"

text \<open>
  \<open>s3Variable.delncattr\<close>: \<open>pop\<close> on the metadata dictionary of the variable structure,
  or else of the dimension structure. The handler of its \<open>KeyError\<close> formats the message
  of an \<open>APIException\<close> with \<open>self.name\<close>; \<open>s3Variable\<close> defines no \<open>name\<close>, so the
  attribute is read through \<open>__getattr__\<close>, and an error raised there leaves the handler
  before the \<open>APIException\<close> is built. The dictionary is as it was in either case.
  Without either structure the call reads the name \<open>value\<close>, which is bound nowhere. The
  first argument is netCDF4's list of private attributes; the result is the outcome and
  the variable after the call.
\<close>

definition s3Variable_delncattr ::
  "string list \<Rightarrow> 'a s3Variable \<Rightarrow> string \<Rightarrow> (error + unit) \<times> 'a s3Variable" where
  "s3Variable_delncattr nc_private v name =
     (case cfa_var v of
        Some cv \<Rightarrow>
          (case var_metadata cv name of
             None \<Rightarrow>
               (case s3Variable_getattr nc_private v ''name'' of
                  Inl e \<Rightarrow> (Inl e, v)
                | Inr _ \<Rightarrow> (Inl APIException, v))
           | Some _ \<Rightarrow>
               (Inr (), v\<lparr>cfa_var := Some (cv\<lparr>var_metadata := (var_metadata cv)(name := None)\<rparr>)\<rparr>))
      | None \<Rightarrow>
          (case cfa_dim v of
             Some cd \<Rightarrow>
               (case dim_metadata cd name of
                  None \<Rightarrow>
                    (case s3Variable_getattr nc_private v ''name'' of
                       Inl e \<Rightarrow> (Inl e, v)
                     | Inr _ \<Rightarrow> (Inl APIException, v))
                | Some _ \<Rightarrow>
                    (Inr (), v\<lparr>cfa_dim := Some (cd\<lparr>dim_metadata := (dim_metadata cd)(name := None)\<rparr>)\<rparr>))
           | None \<Rightarrow> (Inl NameError, v)))"

text \<open>
  \<open>s3Variable.setncattr\<close>: the value is stored in the metadata dictionary of the
  variable or dimension structure, else in the netCDF4 variable.
\<close>

definition s3Variable_setncattr :: "'a s3Variable \<Rightarrow> string \<Rightarrow> attr_value \<Rightarrow> 'a s3Variable" where
  "s3Variable_setncattr v name x =
     (case cfa_var v of
        Some cv \<Rightarrow> v\<lparr>cfa_var := Some (cv\<lparr>var_metadata := (var_metadata cv)(name \<mapsto> x)\<rparr>)\<rparr>
      | None \<Rightarrow>
          (case cfa_dim v of
             Some cd \<Rightarrow> v\<lparr>cfa_dim := Some (cd\<lparr>dim_metadata := (dim_metadata cd)(name \<mapsto> x)\<rparr>)\<rparr>
           | None \<Rightarrow> v\<lparr>nc_var := (nc_var v)\<lparr>ncv_attrs := (ncv_attrs (nc_var v))(name \<mapsto> x)\<rparr>\<rparr>))"

text \<open>
  The in-memory metadata dictionary of a variable: that of its variable structure, else
  of its dimension structure.
\<close>

definition metadata :: "'a s3Variable \<Rightarrow> (string \<rightharpoonup> attr_value) option" where
  "metadata v =
     (case cfa_var v of
        Some cv \<Rightarrow> Some (var_metadata cv)
      | None \<Rightarrow> (case cfa_dim v of Some cd \<Rightarrow> Some (dim_metadata cd) | None \<Rightarrow> None))"


text \<open>
  Examples: an aggregated dataset in write mode with one dimension \<open>x\<close> of length 4, a
  field variable and a dimension variable of it, and a group, each with an attribute in
  its metadata dictionary and another in its netCDF4 object.
\<close>

definition example_dataset :: "int s3Dataset" where
  "example_dataset =
     \<lparr>ds_mode = ''w'', creation_format = ''NETCDF4'',
      cfa_dataset = Some ((CFADataset_with_root ''master.nc'' ''NETCDF4'' ''0.4'')
                            \<lparr>cfa_groups := [''root'' \<mapsto>
                                cfa_createDimension (CFAGroup_new ''root'') ''x'' (Some 4) ''U''],
                             cfa_metadata := [''title'' \<mapsto> AttrStr ''overlay'']\<rparr>),
      nc_dataset = \<lparr>nc_attrs = [''history'' \<mapsto> AttrStr ''file''],
                    nc_dimensions = [''x'' \<mapsto> 4], nc_variables = Map.empty,
                    nc_groups = Map.empty, nc_format = ''NETCDF4''\<rparr>,
      managed_file = \<lparr>remote_system = False, fo_bytes = []\<rparr>\<rparr>"

definition example_variable :: "int s3Variable" where
  "example_variable =
     \<lparr>cfa_var = Some ((cfa_createVariable (CFAGroup_new ''root'') ''t'' ''f4'' [''x''] [2] 0)
                        \<lparr>var_metadata := [''units'' \<mapsto> AttrStr ''K'']\<rparr>),
      cfa_dim = None,
      nc_var = \<lparr>ncv_dimensions = [], ncv_attrs = [''cfa_array'' \<mapsto> AttrInt 1],
                FillValue = Some (-1), ncv_data = array_full [] (-1)\<rparr>\<rparr>"

definition example_group :: "int s3Group" where
  "example_group =
     \<lparr>cfa_grp = Some ((CFAGroup_new ''g'')\<lparr>grp_metadata := [''comment'' \<mapsto> AttrStr ''overlay'']\<rparr>),
      nc_grp = \<lparr>nc_attrs = [''source'' \<mapsto> AttrStr ''file''], nc_dimensions = Map.empty,
                nc_variables = Map.empty\<rparr>\<rparr>"

definition example_dimension_variable :: "int s3Variable" where
  "example_dimension_variable =
     \<lparr>cfa_var = None,
      cfa_dim = Some \<lparr>dim_name = ''x'', dim_len = Some 4, axis_type = ''X'',
                       dim_type = Some ''f4'', dim_metadata = [''axis'' \<mapsto> AttrStr ''X'']\<rparr>,
      nc_var = \<lparr>ncv_dimensions = [''x''], ncv_attrs = [''units'' \<mapsto> AttrStr ''m''],
                FillValue = None, ncv_data = array_of [4] [0, 10, 20, 30]\<rparr>\<rparr>"


section \<open>The file manager\<close>

text \<open>
  Modelled from the spec: the open-file records of \<open>S3netCDF4.Managers._FileManager\<close>,
  which is not among the sources. The states are the constants of \<open>OpenFileRecord\<close> that
  the variable's slice methods compare with, and the terminal state of the specification.
  A record holds its state, the netCDF dataset attached to it (\<open>data_object\<close>) and its
  file object, modelled by the dataset the file's bytes decode to (\<open>None\<close> for a file
  that is not on the backing store).
\<close>

datatype open_state =
    OPEN_NEW_IN_MEMORY
  | OPEN_NEW_ON_DISK
  | OPEN_EXISTS_IN_MEMORY
  | OPEN_EXISTS_ON_DISK
  | DOES_NOT_EXIST
  | CLOSED

record 'a OpenFileRecord =
  open_state :: open_state
  data_object :: "'a nc_dataset option"
  file_object :: "'a nc_dataset option"

record 'a FileManager =
  files :: "string \<rightharpoonup> 'a OpenFileRecord"

text \<open>The backing store: the subarray files that exist, by URI.\<close>

type_synonym 'a store = "string \<rightharpoonup> 'a nc_dataset"

text \<open>
  Modelled from the spec: the state of a record of the file manager's table that is
  requested again. It is then the record of an already opened file: a first-time state
  becomes the state of an existing open file with the same placement.
\<close>

fun reopened :: "open_state \<Rightarrow> open_state" where
  "reopened OPEN_NEW_IN_MEMORY = OPEN_EXISTS_IN_MEMORY"
| "reopened OPEN_NEW_ON_DISK = OPEN_EXISTS_ON_DISK"
| "reopened st = st"

text \<open>
  Modelled from the spec: \<open>FileManager.request_file(uri, projected_size, mode)\<close>. A
  record in the table is returned (as the record of an already opened file). Otherwise
  a read of a URI that is absent on the backing store gives a record in state
  \<open>DOES_NOT_EXIST\<close>, which is not entered in the table; any other request enters a
  first-time record, in memory when the projected size fits the free memory budget
  (\<open>fits\<close>) and on disk when it does not. Eviction under the memory cap is not
  modelled: every request is served.
\<close>

definition request_file ::
  "'a FileManager \<Rightarrow> 'a store \<Rightarrow> (nat \<Rightarrow> bool) \<Rightarrow> string \<Rightarrow> nat \<Rightarrow> string
   \<Rightarrow> 'a OpenFileRecord \<times> 'a FileManager" where
  "request_file fm store fits uri sz mode =
     (case files fm uri of
        Some r \<Rightarrow>
          let r' = r\<lparr>open_state := reopened (open_state r)\<rparr> in
          (r', fm\<lparr>files := (files fm)(uri \<mapsto> r')\<rparr>)
      | None \<Rightarrow>
          if mode = ''r'' \<and> store uri = None
          then (\<lparr>open_state = DOES_NOT_EXIST, data_object = None, file_object = None\<rparr>, fm)
          else
            let r = \<lparr>open_state = (if fits sz then OPEN_NEW_IN_MEMORY else OPEN_NEW_ON_DISK),
                     data_object = None, file_object = store uri\<rparr> in
            (r, fm\<lparr>files := (files fm)(uri \<mapsto> r)\<rparr>))"

text \<open>\<open>request_object.data_object = nc_sa_dataset\<close>: the record in the table is the one changed.\<close>

definition set_data_object :: "'a FileManager \<Rightarrow> string \<Rightarrow> 'a OpenFileRecord \<Rightarrow> 'a nc_dataset \<Rightarrow> 'a FileManager" where
  "set_data_object fm uri r ds = fm\<lparr>files := (files fm)(uri \<mapsto> r\<lparr>data_object := Some ds\<rparr>)\<rparr>"

section \<open>Slice I/O on a variable\<close>

text \<open>
  An entry of the index list that the aggregation variable returns for a slice: the
  partition, the slice of the subarray (\<open>source\<close>) and the slice of the user's array
  (\<open>target\<close>).
\<close>

record index_entry =
  idx_partition :: CFAPartition
  idx_source :: "slice list"
  idx_target :: "slice list"

text \<open>
  What a variable reaches through its parent and its aggregation variable: the
  aggregation group (\<open>getGroup()\<close>), the netCDF4 group or dataset of the master file, the
  format in the dataset's creation parameters, the index of the aggregation variable
  (\<open>self._cfa_var[elem]\<close>, whose class is not among the sources), the placement of the
  file manager, the library's default fill value and the value a requested array is
  initialised with.
\<close>

record 'a var_context =
  ctx_group :: CFAGroup
  ctx_master :: "'a nc_group"
  ctx_format :: string
  ctx_index :: "CFAVariable \<Rightarrow> slice list \<Rightarrow> error + index_entry list"
  ctx_fits :: "nat \<Rightarrow> bool"
  ctx_default_fill :: 'a
  ctx_zero :: 'a

text \<open>
  Modelled from the spec: the shape of what \<open>FileManager.request_array\<close> returns, ``a
  contiguous result array shaped to the bounding box of the target slices'': in each
  dimension the largest stop of a target slice.
\<close>

fun bounding_box :: "slice list list \<Rightarrow> nat list" where
  "bounding_box [] = []"
| "bounding_box [t] = map (\<lambda>(a, b, s). b) t"
| "bounding_box (t # ts) = map2 max (map (\<lambda>(a, b, s). b) t) (bounding_box ts)"

text \<open>
  Modelled from the spec: \<open>FileManager.request_array(index_list, type, base)\<close>, the
  array of the bounding box's shape holding the initial value everywhere.
\<close>

definition request_array :: "index_entry list \<Rightarrow> 'a \<Rightarrow> 'a ndarray" where
  "request_array index_list x = array_full (bounding_box (map idx_target index_list)) x"

text \<open>
  The field variable of a subarray dataset: \<open>nc_sa_dataset[group][name]\<close> for a variable
  of a group other than the root, \<open>nc_sa_dataset[name]\<close> otherwise. The source compares
  the group's name with the literal \<open>"root"\<close> by \<open>is not\<close>; the model compares by value,
  which is what the comparison gives for the interned name the root group is created
  with. A dataset's \<open>[name]\<close> looks among its groups first, then among its variables,
  and raises \<open>IndexError\<close> when it finds nothing.
\<close>

definition field_variable :: "CFAVariable \<Rightarrow> 'a nc_dataset \<Rightarrow> error + 'a nc_variable" where
  "field_variable cv ds =
     (if var_group cv \<noteq> ''root'' then
        (case nc_groups ds (var_group cv) of
           None \<Rightarrow> Inl IndexError
         | Some g \<Rightarrow>
             (case nc_variables g (var_name cv) of
                None \<Rightarrow> Inl IndexError
              | Some x \<Rightarrow> Inr x))
      else
        (case nc_groups ds (var_name cv) of
           Some g \<Rightarrow> Inl TypeError
         | None \<Rightarrow>
             (case nc_variables ds (var_name cv) of
                None \<Rightarrow> Inl IndexError
              | Some x \<Rightarrow> Inr x)))"

text \<open>The same dataset with the field variable replaced, after a write into it.\<close>

definition put_field_variable :: "CFAVariable \<Rightarrow> 'a nc_dataset \<Rightarrow> 'a nc_variable \<Rightarrow> 'a nc_dataset" where
  "put_field_variable cv ds x =
     (if var_group cv \<noteq> ''root'' then
        (case nc_groups ds (var_group cv) of
           None \<Rightarrow> ds
         | Some g \<Rightarrow>
             ds\<lparr>nc_groups := (nc_groups ds)
                  (var_group cv \<mapsto> g\<lparr>nc_variables := (nc_variables g)(var_name cv \<mapsto> x)\<rparr>)\<rparr>)
      else ds\<lparr>nc_variables := (nc_variables ds)(var_name cv \<mapsto> x)\<rparr>)"

subsection \<open>Reading: \<open>s3Variable.__getitem__\<close>\<close>

text \<open>
  The dataset of a requested subarray file, by the state of its record: a first-time
  record in memory is read from its file object, one on disk is opened from the backing
  store, and both are attached to the record; an existing record gives the dataset
  attached to it. In any other state the name \<open>nc_sa_dataset\<close> is never bound.
\<close>

definition open_for_read ::
  "'a FileManager \<Rightarrow> 'a store \<Rightarrow> string \<Rightarrow> 'a OpenFileRecord \<Rightarrow> error + ('a nc_dataset \<times> 'a FileManager)" where
  "open_for_read fm store uri r =
     (if open_state r = OPEN_NEW_IN_MEMORY then
        (case file_object r of
           None \<Rightarrow> Inl IOException
         | Some ds \<Rightarrow> Inr (ds, set_data_object fm uri r ds))
      else if open_state r = OPEN_NEW_ON_DISK then
        (case store uri of
           None \<Rightarrow> Inl IOError
         | Some ds \<Rightarrow> Inr (ds, set_data_object fm uri r ds))
      else if open_state r = OPEN_EXISTS_IN_MEMORY \<or> open_state r = OPEN_EXISTS_ON_DISK then
        (case data_object r of
           None \<Rightarrow> Inl TypeError
         | Some ds \<Rightarrow> Inr (ds, fm))
      else Inl UnboundLocalError)"

text \<open>
  One turn of the loop over the index list: the file is requested for reading; if it
  does not exist, the target slice of the target array is set to the variable's
  \<open>_FillValue\<close> (reading the attribute of a variable that has none is an
  \<open>AttributeError\<close>); otherwise the source slice of the subarray's field variable is
  copied to the target slice.
\<close>

definition read_entry ::
  "'a var_context \<Rightarrow> CFAVariable \<Rightarrow> 'a nc_variable \<Rightarrow> 'a store
   \<Rightarrow> 'a FileManager \<times> 'a ndarray \<Rightarrow> index_entry \<Rightarrow> error + ('a FileManager \<times> 'a ndarray)" where
  "read_entry ctx cv ncv store st index =
     (case st of (fm, target_array) \<Rightarrow>
        let sz = prod_list (p_shape (idx_partition index));
            uri = p_file (idx_partition index);
            (request_object, fm1) = request_file fm store (ctx_fits ctx) uri sz ''r'' in
        if open_state request_object = DOES_NOT_EXIST then
          (case FillValue ncv of
             None \<Rightarrow> Inl AttributeError
           | Some fv \<Rightarrow>
               (case array_fill target_array (idx_target index) fv of
                  Inl e \<Rightarrow> Inl e
                | Inr t \<Rightarrow> Inr (fm1, t)))
        else
          (case open_for_read fm1 store uri request_object of
             Inl e \<Rightarrow> Inl e
           | Inr (nc_sa_dataset, fm2) \<Rightarrow>
               (case field_variable cv nc_sa_dataset of
                  Inl e \<Rightarrow> Inl e
                | Inr nc_sa_fld_var \<Rightarrow>
                    (case array_getitem (ncv_data nc_sa_fld_var) (idx_source index) of
                       Inl e \<Rightarrow> Inl e
                     | Inr slab \<Rightarrow>
                         (case array_setitem target_array (idx_target index) slab of
                            Inl e \<Rightarrow> Inl e
                          | Inr t \<Rightarrow> Inr (fm2, t))))))"

fun read_entries ::
  "'a var_context \<Rightarrow> CFAVariable \<Rightarrow> 'a nc_variable \<Rightarrow> 'a store
   \<Rightarrow> 'a FileManager \<times> 'a ndarray \<Rightarrow> index_entry list \<Rightarrow> error + ('a FileManager \<times> 'a ndarray)" where
  "read_entries ctx cv ncv store st [] = Inr st"
| "read_entries ctx cv ncv store st (index # rest) =
     (case read_entry ctx cv ncv store st index of
        Inl e \<Rightarrow> Inl e
      | Inr st' \<Rightarrow> read_entries ctx cv ncv store st' rest)"

text \<open>
  \<open>s3Variable.__getitem__(elem)\<close>: with an aggregation variable, the index list of the
  slice is worked through into an array requested from the file manager; without one the
  netCDF4 variable is read. The result is the array and the file manager after the call.
\<close>

definition getitem ::
  "'a var_context \<Rightarrow> 'a store \<Rightarrow> 'a FileManager \<Rightarrow> 'a s3Variable \<Rightarrow> slice list
   \<Rightarrow> error + ('a ndarray \<times> 'a FileManager)" where
  "getitem ctx store fm v elem =
     (case cfa_var v of
        None \<Rightarrow>
          (case array_getitem (ncv_data (nc_var v)) elem of
             Inl e \<Rightarrow> Inl e
           | Inr a \<Rightarrow> Inr (a, fm))
      | Some cv \<Rightarrow>
          (case ctx_index ctx cv elem of
             Inl e \<Rightarrow> Inl e
           | Inr index_list \<Rightarrow>
               (case read_entries ctx cv (nc_var v) store
                       (fm, request_array index_list (ctx_zero ctx)) index_list of
                  Inl e \<Rightarrow> Inl e
                | Inr (fm', target_array) \<Rightarrow> Inr (target_array, fm'))))"


subsection \<open>Notions for stating what a read returns\<close>

text \<open>
  The dataset a read of a URI works on: the one attached to the URI's record in the
  file manager's table, or, for a URI that has no record, the file on the backing
  store. It is \<open>None\<close> exactly for a file that is neither open nor on the store.
\<close>

definition current_dataset :: "'a FileManager \<Rightarrow> 'a store \<Rightarrow> string \<Rightarrow> 'a nc_dataset option" where
  "current_dataset fm store uri =
     (case files fm uri of Some r \<Rightarrow> data_object r | None \<Rightarrow> store uri)"

text \<open>
  A URI's record, if it has one, is that of an open file with its dataset attached.
\<close>

definition record_open :: "'a FileManager \<Rightarrow> string \<Rightarrow> bool" where
  "record_open fm uri =
     (case files fm uri of
        None \<Rightarrow> True
      | Some r \<Rightarrow>
          open_state r \<in> {OPEN_NEW_IN_MEMORY, OPEN_NEW_ON_DISK,
                           OPEN_EXISTS_IN_MEMORY, OPEN_EXISTS_ON_DISK}
          \<and> data_object r \<noteq> None)"

text \<open>
  The shape of what a tuple of slices selects in an array of a given shape (\<open>None\<close> when
  the slices do not fit the array), and the coordinates an entry's target slice selects in
  the target array, in row-major order.
\<close>

definition selected_shape :: "nat list \<Rightarrow> slice list \<Rightarrow> nat list option" where
  "selected_shape shp sls =
     (case selection shp sls of Inl e \<Rightarrow> None | Inr sel \<Rightarrow> Some (map length sel))"

definition target_coords :: "nat list \<Rightarrow> index_entry \<Rightarrow> nat list list" where
  "target_coords shp index =
     (case selection shp (idx_target index) of Inl e \<Rightarrow> [] | Inr sel \<Rightarrow> product_lists sel)"

text \<open>
  The cells of a subarray dataset's field variable that an entry's source slice selects,
  in row-major order.
\<close>

definition source_cells :: "CFAVariable \<Rightarrow> 'a nc_dataset \<Rightarrow> index_entry \<Rightarrow> 'a option list" where
  "source_cells cv ds index =
     (case field_variable cv ds of
        Inl e \<Rightarrow> []
      | Inr fld \<Rightarrow>
          (case selection (shape (ncv_data fld)) (idx_source index) of
             Inl e \<Rightarrow> []
           | Inr sel \<Rightarrow> map (cells (ncv_data fld)) (product_lists sel)))"

text \<open>
  An entry is well formed for a read into a target array of shape \<open>shp\<close>: its file's
  record, if any, is open; its target slice fits the target array; and if its file
  exists, the file has the field variable, and the source slice selects there as many
  cells in each dimension as the target slice does in the target array.
\<close>

definition readable :: "'a store \<Rightarrow> 'a FileManager \<Rightarrow> CFAVariable \<Rightarrow> nat list \<Rightarrow> index_entry \<Rightarrow> bool" where
  "readable store fm cv shp index =
     (record_open fm (p_file (idx_partition index))
      \<and> selected_shape shp (idx_target index) \<noteq> None
      \<and> (case current_dataset fm store (p_file (idx_partition index)) of
            None \<Rightarrow> True
          | Some ds \<Rightarrow>
              (case field_variable cv ds of
                 Inl e \<Rightarrow> False
               | Inr fld \<Rightarrow>
                   selected_shape (shape (ncv_data fld)) (idx_source index)
                     = selected_shape shp (idx_target index))))"

text \<open>The target slices of the entries of an index list select pairwise disjoint cells.\<close>

fun disjoint_targets :: "nat list \<Rightarrow> index_entry list \<Rightarrow> bool" where
  "disjoint_targets shp [] = True"
| "disjoint_targets shp (index # rest) =
     (list_all (\<lambda>other. set (target_coords shp index) \<inter> set (target_coords shp other) = {}) rest
      \<and> disjoint_targets shp rest)"


subsection \<open>Writing: \<open>s3Variable.__setitem__\<close>\<close>

text \<open>
  \<open>__create_subarray_ncfile\<close>, in the order of the source. The dataset is created in the
  format of the creation parameters (\<open>in_memory\<close> only chooses arguments that netCDF4
  reads). A variable of a group other than the root gets that group, with the group's
  metadata, in the subarray file. Each dimension of the variable is created with the
  length the partition has in it. Each dimension gets its dimension variable, with the
  metadata of the aggregation's dimension, holding the master file's dimension variable
  between the partition's start and end in that dimension: the master's
  \<open>variables[dim_name]\<close> is a \<open>KeyError\<close> when the dimension variable was never
  created. Last the field variable is created with the variable's dimensions and
  metadata. Element types are not modelled beyond the type parameter.
\<close>

fun create_dimensions :: "string list \<Rightarrow> nat list \<Rightarrow> 'a nc_group \<Rightarrow> error + 'a nc_group" where
  "create_dimensions [] shp g = Inr g"
| "create_dimensions (d # ds) [] g = Inl IndexError"
| "create_dimensions (d # ds) (n # ns) g =
     (if nc_dimensions g d \<noteq> None then Inl RuntimeError
      else create_dimensions ds ns (g\<lparr>nc_dimensions := (nc_dimensions g)(d \<mapsto> n)\<rparr>))"

fun create_dimension_variables ::
  "CFAGroup \<Rightarrow> 'a nc_group \<Rightarrow> 'a \<Rightarrow> string list \<Rightarrow> (nat \<times> nat) list \<Rightarrow> 'a nc_group
   \<Rightarrow> error + 'a nc_group" where
  "create_dimension_variables cg master dflt [] locs g = Inr g"
| "create_dimension_variables cg master dflt (d # ds) locs g =
     (case grp_dimensions cg d of
        None \<Rightarrow> Inl CFAError
      | Some cd \<Rightarrow>
          (case nc_createVariable g d [d] None dflt of
             Inl e \<Rightarrow> Inl e
           | Inr nv \<Rightarrow>
               let nv1 = nv\<lparr>ncv_attrs := ncv_attrs nv ++ dim_metadata cd\<rparr> in
               (case nc_variables master d of
                  None \<Rightarrow> Inl KeyError
                | Some mv \<Rightarrow>
                    (case locs of
                       [] \<Rightarrow> Inl IndexError
                     | (a, b) # locs' \<Rightarrow>
                         (case array_getitem (ncv_data mv) [(a, b, 1)] of
                            Inl e \<Rightarrow> Inl e
                          | Inr slab \<Rightarrow>
                              (case nc_array_setitem (ncv_data nv1) [] slab of
                                 Inl e \<Rightarrow> Inl e
                               | Inr dat \<Rightarrow>
                                   create_dimension_variables cg master dflt ds locs'
                                     (g\<lparr>nc_variables := (nc_variables g)
                                          (d \<mapsto> nv1\<lparr>ncv_data := dat\<rparr>)\<rparr>)))))))"

definition create_subarray_ncfile ::
  "'a var_context \<Rightarrow> CFAVariable \<Rightarrow> index_entry \<Rightarrow> error + 'a nc_dataset" where
  "create_subarray_ncfile ctx cv index =
     (case nc_Dataset_new (ctx_format ctx) of
        Inl e \<Rightarrow> Inl e
      | Inr nc_sa_dataset \<Rightarrow>
          let in_group = (var_group cv \<noteq> ''root'');
              g0 = \<lparr>nc_attrs = (if in_group then grp_metadata (ctx_group ctx) else Map.empty),
                    nc_dimensions = Map.empty, nc_variables = Map.empty\<rparr> :: 'a nc_group in
          (case create_dimensions (dim_names cv) (p_shape (idx_partition index)) g0 of
             Inl e \<Rightarrow> Inl e
           | Inr g1 \<Rightarrow>
               (case create_dimension_variables (ctx_group ctx) (ctx_master ctx)
                       (ctx_default_fill ctx) (dim_names cv)
                       (p_location (idx_partition index)) g1 of
                  Inl e \<Rightarrow> Inl e
                | Inr g2 \<Rightarrow>
                    (case nc_createVariable g2 (var_name cv) (dim_names cv) None
                            (ctx_default_fill ctx) of
                       Inl e \<Rightarrow> Inl e
                     | Inr fld \<Rightarrow>
                         let g3 = g2\<lparr>nc_variables := (nc_variables g2)
                                     (var_name cv \<mapsto> fld\<lparr>ncv_attrs := var_metadata cv\<rparr>)\<rparr> in
                         Inr (if in_group
                              then nc_sa_dataset\<lparr>nc_groups := [var_group cv \<mapsto> g3]\<rparr>
                              else nc_sa_dataset\<lparr>nc_attrs := nc_attrs g3,
                                                 nc_dimensions := nc_dimensions g3,
                                                 nc_variables := nc_variables g3\<rparr>)))))"

text \<open>
  The dataset a write goes to, by the state of the requested record: for a first-time
  record the subarray file is created and attached to the record, and the partition is
  recorded in the aggregation variable (\<open>writePartition\<close>); an existing record gives the
  dataset attached to it. In any other state \<open>nc_sa_dataset\<close> is never bound.
\<close>

definition open_for_write ::
  "'a var_context \<Rightarrow> CFAVariable \<Rightarrow> 'a FileManager \<Rightarrow> string \<Rightarrow> 'a OpenFileRecord \<Rightarrow> index_entry
   \<Rightarrow> error + ('a nc_dataset \<times> 'a FileManager \<times> CFAVariable)" where
  "open_for_write ctx cv fm uri r index =
     (if open_state r = OPEN_NEW_IN_MEMORY \<or> open_state r = OPEN_NEW_ON_DISK then
        (case create_subarray_ncfile ctx cv index of
           Inl e \<Rightarrow> Inl e
         | Inr ds \<Rightarrow>
             Inr (ds, set_data_object fm uri r ds,
                  cv\<lparr>var_partitions := var_partitions cv @ [idx_partition index]\<rparr>))
      else if open_state r = OPEN_EXISTS_IN_MEMORY \<or> open_state r = OPEN_EXISTS_ON_DISK then
        (case data_object r of
           None \<Rightarrow> Inl TypeError
         | Some ds \<Rightarrow> Inr (ds, fm, cv))
      else Inl UnboundLocalError)"

text \<open>
  One turn of the loop over the index list: the file is requested for writing, its
  dataset created or taken from the record, and \<open>data\<close>, the whole array the caller
  passed, is assigned to the source slice of the field variable. The entry's target
  slice is not read.
\<close>

definition write_entry ::
  "'a var_context \<Rightarrow> 'a store \<Rightarrow> 'a ndarray
   \<Rightarrow> 'a FileManager \<times> CFAVariable \<Rightarrow> index_entry \<Rightarrow> error + ('a FileManager \<times> CFAVariable)" where
  "write_entry ctx store data st index =
     (case st of (fm, cv) \<Rightarrow>
        let sz = prod_list (p_shape (idx_partition index));
            uri = p_file (idx_partition index);
            (request_object, fm1) = request_file fm store (ctx_fits ctx) uri sz ''w'' in
        (case open_for_write ctx cv fm1 uri request_object index of
           Inl e \<Rightarrow> Inl e
         | Inr (nc_sa_dataset, fm2, cv') \<Rightarrow>
             (case field_variable cv' nc_sa_dataset of
                Inl e \<Rightarrow> Inl e
              | Inr nc_sa_fld_var \<Rightarrow>
                  (case nc_array_setitem (ncv_data nc_sa_fld_var) (idx_source index) data of
                     Inl e \<Rightarrow> Inl e
                   | Inr dat \<Rightarrow>
                       Inr (set_data_object fm2 uri request_object
                              (put_field_variable cv' nc_sa_dataset
                                 (nc_sa_fld_var\<lparr>ncv_data := dat\<rparr>)),
                            cv')))))"

fun write_entries ::
  "'a var_context \<Rightarrow> 'a store \<Rightarrow> 'a ndarray
   \<Rightarrow> 'a FileManager \<times> CFAVariable \<Rightarrow> index_entry list \<Rightarrow> error + ('a FileManager \<times> CFAVariable)" where
  "write_entries ctx store data st [] = Inr st"
| "write_entries ctx store data st (index # rest) =
     (case write_entry ctx store data st index of
        Inl e \<Rightarrow> Inl e
      | Inr st' \<Rightarrow> write_entries ctx store data st' rest)"

text \<open>
  \<open>s3Variable.__setitem__(elem, data)\<close>: with an aggregation variable, the index list of
  the slice is worked through; without one the netCDF4 variable is written. The result
  is the file manager and the variable after the call.
\<close>

definition setitem ::
  "'a var_context \<Rightarrow> 'a store \<Rightarrow> 'a FileManager \<Rightarrow> 'a s3Variable \<Rightarrow> slice list \<Rightarrow> 'a ndarray
   \<Rightarrow> error + ('a FileManager \<times> 'a s3Variable)" where
  "setitem ctx store fm v elem data =
     (case cfa_var v of
        None \<Rightarrow>
          (case nc_array_setitem (ncv_data (nc_var v)) elem data of
             Inl e \<Rightarrow> Inl e
           | Inr dat \<Rightarrow> Inr (fm, v\<lparr>nc_var := (nc_var v)\<lparr>ncv_data := dat\<rparr>\<rparr>))
      | Some cv \<Rightarrow>
          (case ctx_index ctx cv elem of
             Inl e \<Rightarrow> Inl e
           | Inr index_list \<Rightarrow>
               (case write_entries ctx store data (fm, cv) index_list of
                  Inl e \<Rightarrow> Inl e
                | Inr (fm', cv') \<Rightarrow> Inr (fm', v\<lparr>cfa_var := Some cv'\<rparr>))))"

subsection \<open>The boundary scenarios of the specification\<close>

text \<open>
  Modelled from the spec: the index of the aggregation variable
  (\<open>CFAVariable.__getitem__\<close>, whose class is not among the sources) and the
  partition-to-filename rule, for the variable of the specification's scenarios: \<open>t\<close>
  with dimensions \<open>x\<close> and \<open>y\<close> of length 4 and subarrays of shape \<open>2 \<times> 2\<close>, in the root
  group of an aggregation whose master file is \<open>master.nc\<close>. The partition with index
  \<open>(i, j)\<close> lies at \<open>[2i, 2i+2) \<times> [2j, 2j+2)\<close> and its file is \<open>master/t.i.j.nc\<close>. For
  a slice with unit steps the index holds, in row-major order of the partitions, each
  partition that overlaps the slice, with the overlap relative to the partition as source
  and relative to the slice's start as target. Other slices are not modelled: the index
  raises for them.
\<close>

definition tile_file :: "nat \<Rightarrow> nat \<Rightarrow> string" where
  "tile_file i j =
     ''master/t.'' @ [char_of (48 + i)] @ ''.'' @ [char_of (48 + j)] @ ''.nc''"

text \<open>
  Modelled from the spec: the partition \<open>(i, j)\<close> of \<open>t\<close>, with
  \<open>shape = location.end - location.start\<close> in each dimension.
\<close>

definition tile_partition :: "nat \<Rightarrow> nat \<Rightarrow> CFAPartition" where
  "tile_partition i j =
     \<lparr>p_index = [i, j], p_location = [(2 * i, 2 * i + 2), (2 * j, 2 * j + 2)],
      p_shape = [2, 2], p_file = tile_file i j\<rparr>"

text \<open>
  Modelled from the spec: the overlap of a range of the slice with the partition \<open>i\<close> of
  a dimension, \<open>[max(start, location.start), min(stop, location.end))\<close>.
\<close>

definition overlap :: "nat \<Rightarrow> nat \<times> nat \<Rightarrow> nat \<times> nat" where
  "overlap i r = (case r of (lo, hi) \<Rightarrow> (max lo (2 * i), min hi (2 * i + 2)))"

text \<open>
  Modelled from the spec: the index entry of the partition \<open>(i, j)\<close> for a slice with the
  ranges \<open>rx\<close> and \<open>ry\<close>: the overlap minus the partition's start as source, the overlap
  minus the slice's start as target.
\<close>

definition tile_entry :: "nat \<times> nat \<Rightarrow> nat \<times> nat \<Rightarrow> nat \<Rightarrow> nat \<Rightarrow> index_entry" where
  "tile_entry rx ry i j =
     (case (overlap i rx, overlap j ry) of
        ((a, b), (c, d)) \<Rightarrow>
          \<lparr>idx_partition = tile_partition i j,
           idx_source = [(a - 2 * i, b - 2 * i, 1), (c - 2 * j, d - 2 * j, 1)],
           idx_target = [(a - fst rx, b - fst rx, 1), (c - fst ry, d - fst ry, 1)]\<rparr>)"

text \<open>
  Modelled from the spec: the index list of a slice, the entries of the partitions with a
  non-empty overlap in row-major order of their indices.
\<close>

definition tile_index :: "CFAVariable \<Rightarrow> slice list \<Rightarrow> error + index_entry list" where
  "tile_index cv elem =
     (case elem of
        [(x0, x1, sx), (y0, y1, sy)] \<Rightarrow>
          if sx \<noteq> 1 \<or> sy \<noteq> 1 then Inl IndexError
          else
          Inr (concat (map (\<lambda>i. concat (map (\<lambda>j.
                 (case (overlap i (x0, x1), overlap j (y0, y1)) of
                    ((a, b), (c, d)) \<Rightarrow>
                      if a < b \<and> c < d then [tile_entry (x0, x1) (y0, y1) i j] else []))
                 [0, 1])) [0, 1]))
      | _ \<Rightarrow> Inl IndexError)"

definition coordinate_variable :: "string \<Rightarrow> int nc_variable" where
  "coordinate_variable d =
     \<lparr>ncv_dimensions = [d], ncv_attrs = Map.empty, FillValue = None,
      ncv_data = array_of [4] [0, 10, 20, 30]\<rparr>"

definition tile_group :: CFAGroup where
  "tile_group =
     (CFAGroup_new ''root'')
       \<lparr>grp_dimensions :=
          [''x'' \<mapsto> \<lparr>dim_name = ''x'', dim_len = Some 4, axis_type = ''X'',
                      dim_type = Some ''i4'', dim_metadata = Map.empty\<rparr>,
           ''y'' \<mapsto> \<lparr>dim_name = ''y'', dim_len = Some 4, axis_type = ''Y'',
                      dim_type = Some ''i4'', dim_metadata = Map.empty\<rparr>]\<rparr>"

definition tile_context :: "int var_context" where
  "tile_context =
     \<lparr>ctx_group = tile_group,
      ctx_master = \<lparr>nc_attrs = Map.empty, nc_dimensions = [''x'' \<mapsto> 4, ''y'' \<mapsto> 4],
                    nc_variables = [''x'' \<mapsto> coordinate_variable ''x'',
                                    ''y'' \<mapsto> coordinate_variable ''y'']\<rparr>,
      ctx_format = ''NETCDF4'',
      ctx_index = tile_index,
      ctx_fits = (\<lambda>n. True),
      ctx_default_fill = - 999,
      ctx_zero = 0\<rparr>"

definition tile_variable :: "int s3Variable" where
  "tile_variable =
     \<lparr>cfa_var = Some (cfa_createVariable tile_group ''t'' ''i4'' [''x'', ''y''] [2, 2] 0),
      cfa_dim = None,
      nc_var = \<lparr>ncv_dimensions = [], ncv_attrs = Map.empty, FillValue = Some (- 1),
                ncv_data = array_full [] (- 1)\<rparr>\<rparr>"

definition no_files :: "int FileManager" where
  "no_files = \<lparr>files = Map.empty\<rparr>"

text \<open>
  The backing store of the sparse-write scenario: only the subarray file of the
  partition \<open>(0, 0)\<close> exists, and its field variable holds 7 everywhere.
\<close>

definition sevens :: "int nc_dataset" where
  "sevens =
     \<lparr>nc_attrs = Map.empty, nc_dimensions = [''x'' \<mapsto> 2, ''y'' \<mapsto> 2],
      nc_variables = [''t'' \<mapsto> \<lparr>ncv_dimensions = [''x'', ''y''], ncv_attrs = Map.empty,
                                FillValue = None, ncv_data = array_full [2, 2] 7\<rparr>],
      nc_groups = Map.empty, nc_format = ''NETCDF4''\<rparr>"

definition sparse_store :: "int store" where
  "sparse_store = [tile_file 0 0 \<mapsto> sevens]"


text \<open>
  The aggregation variable of \<open>t\<close>, and the slice \<open>[:, :]\<close> of the whole variable with its
  bounds resolved.
\<close>

definition tile_cfa_variable :: CFAVariable where
  "tile_cfa_variable = cfa_createVariable tile_group ''t'' ''i4'' [''x'', ''y''] [2, 2] 0"

definition whole_variable :: "slice list" where
  "whole_variable = [(0, 4, 1), (0, 4, 1)]"


text \<open>
  The write-mode aggregated dataset in which \<open>t\<close> is created: its aggregation has the
  root group with the dimensions \<open>x\<close> and \<open>y\<close>, its netCDF dataset the two dimensions
  and their dimension variables.
\<close>

definition tile_dataset :: "int s3Dataset" where
  "tile_dataset =
     \<lparr>ds_mode = ''w'', creation_format = ''NETCDF4'',
      cfa_dataset = Some ((CFADataset_with_root ''master.nc'' ''NETCDF4'' ''0.4'')
                            \<lparr>cfa_groups := [''root'' \<mapsto> tile_group]\<rparr>),
      nc_dataset = nc_group.extend (ctx_master tile_context)
                     \<lparr>nc_groups = Map.empty, nc_format = ''NETCDF4''\<rparr>,
      managed_file = \<lparr>remote_system = False, fo_bytes = []\<rparr>\<rparr>"


text \<open>
  The variable \<open>t\<close> as \<open>create\<close> makes it when no \<open>fill_value\<close> is passed, the default:
  the netCDF4 variable has no \<open>_FillValue\<close> attribute and holds the library's default
  fill value.
\<close>

definition unfilled_variable :: "int s3Variable" where
  "unfilled_variable =
     \<lparr>cfa_var = Some (cfa_createVariable tile_group ''t'' ''i4'' [''x'', ''y''] [2, 2] 0),
      cfa_dim = None,
      nc_var = \<lparr>ncv_dimensions = [], ncv_attrs = Map.empty, FillValue = None,
                ncv_data = array_full [] (- 999)\<rparr>\<rparr>"


section \<open>Properties of the byte-stream layer\<close>

lemma getsize_read:
  assumes "CHR ''w'' \<notin> set (fo_mode f)" and "conn_obj f = Connected"
    and "objects srv (bucket f, fo_path f) = Some bs"
  shows "getsize srv f = Inr (int (length bs))"
  using assms by (simp add: getsize_def)

text \<open>
  C10. A file object opened for reading (no \<open>w\<close> in its mode) and connected, over an
  object of \<open>n\<close> bytes: \<open>seek\<close> takes as target the offset for \<open>SEEK_SET\<close>, the current
  position plus the offset for \<open>SEEK_CUR\<close> and \<open>n\<close> minus the offset for \<open>SEEK_END\<close>. A
  target below 0 or at least \<open>n\<close> (the end of the file included) raises \<open>IOException\<close>
  and the object, its position included, is as before; any other target becomes the
  position and is returned.
\<close>

theorem seek_read_mode:
  assumes "CHR ''w'' \<notin> set (fo_mode f)" and "conn_obj f = Connected"
    and "objects srv (bucket f, fo_path f) = Some bs"
    and "n = int (length bs)"
    and "whence = SEEK_SET \<or> whence = SEEK_CUR \<or> whence = SEEK_END"
  shows "seek srv f offset whence =
          (let target = (if whence = SEEK_SET then offset
                         else if whence = SEEK_CUR then seek_pos f + offset
                         else n - offset) in
           if target < 0 \<or> target \<ge> n then (Inl IOException, f)
           else (Inr target, f\<lparr>seek_pos := target\<rparr>))"
proof -
  have w: "fo_mode f \<noteq> ''w''"
    using assms(1) by auto
  have "getsize srv f = Inr n"
    using assms by (simp add: getsize_read)
  then show ?thesis
    using w assms(5) by (auto simp: seek_def Let_def)
qed

theorem seek_read_mode_witness:
  "CHR ''w'' \<notin> set (fo_mode example_reader) \<and> conn_obj example_reader = Connected
   \<and> objects example_server (bucket example_reader, fo_path example_reader)
       = Some [1, 2, 3, 4, 5, 6, 7, 8, 9, 10]
   \<and> seek example_server example_reader 3 SEEK_END
       = (Inr 7, example_reader\<lparr>seek_pos := 7\<rparr>)
   \<and> seek example_server example_reader 10 SEEK_SET = (Inl IOException, example_reader)
   \<and> seek example_server example_reader 0 SEEK_END = (Inl IOException, example_reader)
   \<and> seek example_server example_reader (- 1) SEEK_CUR = (Inl IOException, example_reader)"
proof -
  have ex: "example_reader
      = (s3FileObject_init ''bucket'' ''key.nc'' ''r'')\<lparr>conn_obj := Connected\<rparr>"
    by (simp add: example_reader_def connect_def example_server_def s3FileObject_init_def)
  have h1: "CHR ''w'' \<notin> set (fo_mode example_reader)"
    by (simp add: ex s3FileObject_init_def)
  have h2: "conn_obj example_reader = Connected"
    by (simp add: ex)
  have h3: "objects example_server (bucket example_reader, fo_path example_reader)
       = Some [1, 2, 3, 4, 5, 6, 7, 8, 9, 10]"
    by (simp add: ex example_server_def s3FileObject_init_def)
  have h4: "(10::int) = int (length [1, 2, 3, 4, 5, 6, 7, 8, 9, 10 :: byte])"
    by simp
  have p: "seek_pos example_reader = 0"
    by (simp add: ex s3FileObject_init_def)
  note t = seek_read_mode [OF h1 h2 h3 h4]
  have "seek example_server example_reader 3 SEEK_END
       = (Inr 7, example_reader\<lparr>seek_pos := 7\<rparr>)"
    using t [of SEEK_END 3] by (simp add: SEEK_SET_def SEEK_CUR_def SEEK_END_def)
  moreover have "seek example_server example_reader 10 SEEK_SET
       = (Inl IOException, example_reader)"
    using t [of SEEK_SET 10] by simp
  moreover have "seek example_server example_reader 0 SEEK_END
       = (Inl IOException, example_reader)"
    using t [of SEEK_END 0] by (simp add: SEEK_SET_def SEEK_CUR_def SEEK_END_def)
  moreover have "seek example_server example_reader (- 1) SEEK_CUR
       = (Inl IOException, example_reader)"
    using t [of SEEK_CUR "- 1"] p by (simp add: SEEK_SET_def SEEK_CUR_def)
  ultimately show ?thesis
    using h1 h2 h3 by simp
qed

section \<open>Properties of opening a dataset\<close>

lemma py_eq_int_bytes [simp]: "py_eq (PyInt i) (PyBytes b) = False"
  by simp








text \<open>
  C2. The classifier at a header beginning \<open>CDF\x02\<close>, one beginning \<open>CDF\x05\<close> and
  one beginning \<open>\x0e\x03\x13\x01\<close>: each is reported as \<open>NOT_NETCDF\<close>. The version byte
  is an integer and is compared with the strings \<open>'2'\<close> and \<open>'5'\<close>; the first byte is
  an integer and is compared with a bytes object.
\<close>

theorem interpret_netCDF_filetype_misses:
  "interpret_netCDF_filetype [0x43, 0x44, 0x46, 0x02, 0x00, 0x00] = Inr (''NOT_NETCDF'', PyInt 1)
   \<and> interpret_netCDF_filetype [0x43, 0x44, 0x46, 0x05, 0x00, 0x00] = Inr (''NOT_NETCDF'', PyInt 1)
   \<and> interpret_netCDF_filetype [0x0E, 0x03, 0x13, 0x01, 0x00, 0x00] = Inr (''NOT_NETCDF'', PyInt 0)"
  by (simp add: interpret_netCDF_filetype_def bytes_slice_def bytes_getitem_def)

lemma interpret_netCDF_filetype_classic:
  "interpret_netCDF_filetype [0x43, 0x44, 0x46, 0x01, 0x00, 0x00] = Inr (''NETCDF3_CLASSIC'', PyInt 1)"
  by (simp add: interpret_netCDF_filetype_def bytes_slice_def bytes_getitem_def)

text \<open>
  C3. A write-mode open with convention version \<open>0.5\<close> and the format
  \<open>NETCDF3_64BIT_OFFSET\<close> (or \<open>NETCDF3_64BIT_DATA\<close>) is not rejected: the file manager
  is created, the master file requested and the netCDF dataset created in that format.
\<close>

theorem open_64bit_offset_v05_accepted:
  "fst (s3Dataset_init (local_env [] :: int environment)
          ''master.nc'' ''w'' ''NETCDF3_64BIT_OFFSET'' ''0.5'')
     = [FileManagerCreated, FileRequested ''master.nc'' ''wb'',
        DatasetOpened ''master.nc'' ''w'' ''NETCDF3_64BIT_OFFSET'']
   \<and> map_sum id cfa_dataset
         (snd (s3Dataset_init (local_env [] :: int environment)
                 ''master.nc'' ''w'' ''NETCDF3_64BIT_OFFSET'' ''0.5'')) = Inr None
   \<and> map_sum id creation_format
         (snd (s3Dataset_init (local_env [] :: int environment)
                 ''master.nc'' ''w'' ''NETCDF3_64BIT_DATA'' ''0.5'')) = Inr ''NETCDF3_64BIT_DATA''"
  by (simp add: s3Dataset_init_def local_env_def nc_Dataset_new_def nc_formats_def)

lemma open_guard_first:
  "cfa_ver = ''0.5'' \<Longrightarrow> format = ''CFA3'' \<or> format = ''NETCDF3_CLASSIC''
   \<Longrightarrow> s3Dataset_init env filename mode format cfa_ver = ([], Inl APIException)"
  by (simp add: s3Dataset_init_def)

text \<open>
  C9. An open with mode \<open>ab\<close> (or \<open>rb\<close>), whatever the file manager does: the
  constructor stops at the unbound \<open>fh_mode\<close> with an \<open>UnboundLocalError\<close>, not with
  the \<open>APIException\<close> of its last branch.
\<close>

theorem open_binary_mode_unbound:
  "s3Dataset_init env ''master.nc'' ''ab'' ''DEFAULT'' ''0.4''
     = ([FileManagerCreated], Inl UnboundLocalError)
   \<and> s3Dataset_init env ''master.nc'' ''rb'' ''DEFAULT'' ''0.4''
     = ([FileManagerCreated], Inl UnboundLocalError)"
  by (simp add: s3Dataset_init_def)

lemma open_other_mode:
  assumes "mode \<noteq> ''r''" and "mode \<noteq> ''w''" and "CHR ''b'' \<notin> set mode"
    and "\<not> (cfa_ver = ''0.5'' \<and> (format = ''CFA3'' \<or> format = ''NETCDF3_CLASSIC''))"
    and "request_master env filename (mode @ ''b'') = Inr fo"
  shows "snd (s3Dataset_init env filename mode format cfa_ver) = Inl APIException"
  using assms by (auto simp: s3Dataset_init_def Let_def)

lemma connect_rejects_append:
  assumes "CHR ''a'' \<in> set (fo_mode f) \<or> CHR ''+'' \<in> set (fo_mode f)"
  shows "\<exists>e. fst (connect srv f) = Inl e"
  using assms by (auto simp: connect_def Let_def)

lemma connect_append_APIException:
  assumes "CHR ''a'' \<in> set (fo_mode f) \<or> CHR ''+'' \<in> set (fo_mode f)"
    and "reachable srv"
    and "CHR ''r'' \<notin> set (fo_mode f) \<or> objects srv (bucket f, fo_path f) \<noteq> None"
  shows "fst (connect srv f) = Inl APIException"
  using assms by (auto simp: connect_def Let_def)


section \<open>Properties of attributes and of variable creation\<close>

text \<open>
  The example dataset is what the constructor and \<open>createDimension\<close> build, up to the
  two attributes added for the examples.
\<close>

lemma example_dataset_built:
  "(case snd (s3Dataset_init (local_env []) ''master.nc'' ''w'' ''DEFAULT'' ''0.4'') of
      Inl e \<Rightarrow> Inl e
    | Inr ds \<Rightarrow> s3Dataset_createDimension ds ''x'' (Some 4) ''U'')
   = Inr (example_dataset\<lparr>cfa_dataset := map_option (\<lambda>c. c\<lparr>cfa_metadata := Map.empty\<rparr>) (cfa_dataset example_dataset),
            nc_dataset := (nc_dataset example_dataset)\<lparr>nc_attrs := Map.empty\<rparr>\<rparr>)"
  by (simp add: s3Dataset_init_def local_env_def nc_Dataset_new_def nc_formats_def
      s3Dataset_createDimension_def example_dataset_def CFADataset_with_root_def)

text \<open>
  C7. \<open>getncattr\<close> on an aggregated variable (field or dimension variable), group or
  dataset: a name present in the in-memory metadata dictionary gets the dictionary's
  value; a name absent from it is looked up in the netCDF4 object of the backing file,
  whose value is returned if it is there, and only if it is absent there too is an error
  (\<open>AttributeError\<close>) raised.
\<close>

theorem getncattr_overlay_then_file:
  "(cfa_var v = Some cv \<longrightarrow>
      s3Variable_getncattr v name
        = (case var_metadata cv name of Some x \<Rightarrow> Inr x
           | None \<Rightarrow> (case ncv_attrs (nc_var v) name of
                        Some y \<Rightarrow> Inr y | None \<Rightarrow> Inl AttributeError)))
   \<and> (cfa_var v = None \<and> cfa_dim v = Some cd \<longrightarrow>
      s3Variable_getncattr v name
        = (case dim_metadata cd name of Some x \<Rightarrow> Inr x
           | None \<Rightarrow> (case ncv_attrs (nc_var v) name of
                        Some y \<Rightarrow> Inr y | None \<Rightarrow> Inl AttributeError)))
   \<and> (cfa_grp g = Some cg \<longrightarrow>
      s3Group_getncattr g name
        = (case grp_metadata cg name of Some x \<Rightarrow> Inr x
           | None \<Rightarrow> (case nc_attrs (nc_grp g) name of
                        Some y \<Rightarrow> Inr y | None \<Rightarrow> Inl AttributeError)))
   \<and> (cfa_dataset ds = Some cds \<longrightarrow>
      s3Dataset_getncattr ds name
        = (case cfa_metadata cds name of Some x \<Rightarrow> Inr x
           | None \<Rightarrow> (case nc_attrs (nc_dataset ds) name of
                        Some y \<Rightarrow> Inr y | None \<Rightarrow> Inl AttributeError)))"
  by (auto simp: s3Variable_getncattr_def s3Group_getncattr_def
      s3Dataset_getncattr_def nc_getncattr_def split: option.splits)

theorem getncattr_overlay_then_file_witness:
  "cfa_var example_variable \<noteq> None
   \<and> s3Variable_getncattr example_variable ''units'' = Inr (AttrStr ''K'')
   \<and> s3Variable_getncattr example_variable ''cfa_array'' = Inr (AttrInt 1)
   \<and> s3Variable_getncattr example_variable ''missing'' = Inl AttributeError
   \<and> cfa_var example_dimension_variable = None
   \<and> cfa_dim example_dimension_variable \<noteq> None
   \<and> s3Variable_getncattr example_dimension_variable ''axis'' = Inr (AttrStr ''X'')
   \<and> s3Variable_getncattr example_dimension_variable ''units'' = Inr (AttrStr ''m'')
   \<and> cfa_grp example_group \<noteq> None
   \<and> s3Group_getncattr example_group ''comment'' = Inr (AttrStr ''overlay'')
   \<and> s3Group_getncattr example_group ''source'' = Inr (AttrStr ''file'')
   \<and> cfa_dataset example_dataset \<noteq> None
   \<and> s3Dataset_getncattr example_dataset ''title'' = Inr (AttrStr ''overlay'')
   \<and> s3Dataset_getncattr example_dataset ''history'' = Inr (AttrStr ''file'')"
proof -
  obtain cv where v: "cfa_var example_variable = Some cv"
    and vm: "var_metadata cv = [''units'' \<mapsto> AttrStr ''K'']"
    by (simp add: example_variable_def cfa_createVariable_def)
  obtain cd where dv: "cfa_var example_dimension_variable = None"
    "cfa_dim example_dimension_variable = Some cd"
    and dvm: "dim_metadata cd = [''axis'' \<mapsto> AttrStr ''X'']"
    by (simp add: example_dimension_variable_def)
  obtain cg where g: "cfa_grp example_group = Some cg"
    and gm: "grp_metadata cg = [''comment'' \<mapsto> AttrStr ''overlay'']"
    by (simp add: example_group_def)
  obtain cds where d: "cfa_dataset example_dataset = Some cds"
    and dm: "cfa_metadata cds = [''title'' \<mapsto> AttrStr ''overlay'']"
    by (simp add: example_dataset_def)
  note t = getncattr_overlay_then_file
    [where v = example_variable and cv = cv and g = example_group and cg = cg
       and ds = example_dataset and cds = cds]
  note t' = getncattr_overlay_then_file
    [where v = example_dimension_variable and cd = cd and g = example_group and cg = cg
       and ds = example_dataset and cds = cds]
  have "s3Variable_getncattr example_variable ''units'' = Inr (AttrStr ''K'')"
    using t [where name = "''units''"] v vm by simp
  moreover have "s3Variable_getncattr example_variable ''cfa_array'' = Inr (AttrInt 1)"
    using t [where name = "''cfa_array''"] v vm by (simp add: example_variable_def)
  moreover have "s3Variable_getncattr example_variable ''missing'' = Inl AttributeError"
    using t [where name = "''missing''"] v vm by (simp add: example_variable_def)
  moreover have "s3Variable_getncattr example_dimension_variable ''axis'' = Inr (AttrStr ''X'')"
    using t' [where name = "''axis''"] dv dvm by simp
  moreover have "s3Variable_getncattr example_dimension_variable ''units'' = Inr (AttrStr ''m'')"
    using t' [where name = "''units''"] dv dvm by (simp add: example_dimension_variable_def)
  moreover have "s3Group_getncattr example_group ''comment'' = Inr (AttrStr ''overlay'')"
    using t [where name = "''comment''"] g gm by simp
  moreover have "s3Group_getncattr example_group ''source'' = Inr (AttrStr ''file'')"
    using t [where name = "''source''"] g gm by (simp add: example_group_def)
  moreover have "s3Dataset_getncattr example_dataset ''title'' = Inr (AttrStr ''overlay'')"
    using t [where name = "''title''"] d dm by simp
  moreover have "s3Dataset_getncattr example_dataset ''history'' = Inr (AttrStr ''file'')"
    using t [where name = "''history''"] d dm by (simp add: example_dataset_def)
  ultimately show ?thesis
    using v dv g d by simp
qed

text \<open>
  \<open>delncattr\<close> on a variable with a metadata dictionary (a partitioned variable or a
  dimension variable). A name the dictionary holds is removed, and no other key is. For
  a name it does not hold the call fails and the variable, its dictionary included, is as
  it was; the error is an \<open>APIException\<close> only if reading \<open>self.name\<close> succeeds, and it is
  the \<open>KeyError\<close> of that read when neither the dictionary nor the netCDF4 variable has
  an attribute called \<open>name\<close>.
\<close>

lemma delncattr_present:
  assumes "metadata v = Some m" and "m name \<noteq> None"
  shows "fst (s3Variable_delncattr nc_private v name) = Inr ()
       \<and> metadata (snd (s3Variable_delncattr nc_private v name)) = Some (m(name := None))"
  using assms
  by (auto simp: metadata_def s3Variable_delncattr_def split: option.splits)

lemma delncattr_absent_unchanged:
  assumes "metadata v = Some m" and "m name = None"
  shows "snd (s3Variable_delncattr nc_private v name) = v
       \<and> fst (s3Variable_delncattr nc_private v name)
           = (case s3Variable_getattr nc_private v ''name'' of
                Inl e \<Rightarrow> Inl e
              | Inr x \<Rightarrow> Inl APIException)"
  using assms
  by (auto simp: metadata_def s3Variable_delncattr_def split: option.splits sum.splits)

lemma getattr_name_KeyError:
  assumes "metadata v = Some m" and "m ''name'' = None"
    and "ncv_attrs (nc_var v) ''name'' = None"
  shows "s3Variable_getattr nc_private v ''name'' = Inl KeyError"
  using assms
  by (auto simp: metadata_def s3Variable_getattr_def s3Variable_private_atts_def
      nc_variable_getattr_def split: option.splits)

lemma delncattr_absent_KeyError:
  assumes "metadata v = Some m" and "m name = None" and "m ''name'' = None"
    and "ncv_attrs (nc_var v) ''name'' = None"
  shows "s3Variable_delncattr nc_private v name = (Inl KeyError, v)"
  using delncattr_absent_unchanged [OF assms(1,2), of nc_private]
    getattr_name_KeyError [OF assms(1,3,4), of nc_private]
  by (simp add: prod_eq_iff)

lemma delncattr_examples_present:
  "fst (s3Variable_delncattr nc_private example_variable ''units'') = Inr ()
   \<and> metadata (snd (s3Variable_delncattr nc_private example_variable ''units'')) = Some Map.empty
   \<and> fst (s3Variable_delncattr nc_private example_dimension_variable ''axis'') = Inr ()
   \<and> metadata (snd (s3Variable_delncattr nc_private example_dimension_variable ''axis''))
       = Some Map.empty"
proof -
  have m: "metadata example_variable = Some [''units'' \<mapsto> AttrStr ''K'']"
    by (simp add: metadata_def example_variable_def cfa_createVariable_def)
  have dm: "metadata example_dimension_variable = Some [''axis'' \<mapsto> AttrStr ''X'']"
    by (simp add: metadata_def example_dimension_variable_def)
  show ?thesis
    using delncattr_present [OF m, of "''units''" nc_private]
      delncattr_present [OF dm, of "''axis''" nc_private]
    by simp
qed

text \<open>
  C8. \<open>delncattr\<close> with a name absent from the metadata dictionary, on the partitioned
  variable \<open>t\<close> (dictionary \<open>{units: K}\<close>, deleting \<open>missing\<close>) and on the dimension
  variable \<open>x\<close> (dictionary \<open>{axis: X}\<close>, deleting \<open>units\<close>): the call raises a
  \<open>KeyError\<close> and not an \<open>APIException\<close>, whatever netCDF4's list of private attributes
  holds. The handler of the dictionary's \<open>KeyError\<close> reads \<open>self.name\<close> for the message of
  the \<open>APIException\<close>; neither variable has an attribute \<open>name\<close>, so that read raises
  \<open>KeyError\<close> before the \<open>APIException\<close> is built. The variable is unchanged.
\<close>

theorem delncattr_absent_raises_KeyError:
  "s3Variable_delncattr nc_private example_variable ''missing''
     = (Inl KeyError, example_variable)
   \<and> s3Variable_delncattr nc_private example_dimension_variable ''units''
       = (Inl KeyError, example_dimension_variable)"
proof -
  have m: "metadata example_variable = Some [''units'' \<mapsto> AttrStr ''K'']"
    by (simp add: metadata_def example_variable_def cfa_createVariable_def)
  have dm: "metadata example_dimension_variable = Some [''axis'' \<mapsto> AttrStr ''X'']"
    by (simp add: metadata_def example_dimension_variable_def)
  have n: "ncv_attrs (nc_var example_variable) ''name'' = None"
    by (simp add: example_variable_def)
  have dn: "ncv_attrs (nc_var example_dimension_variable) ''name'' = None"
    by (simp add: example_dimension_variable_def)
  have "s3Variable_delncattr nc_private example_variable ''missing''
          = (Inl KeyError, example_variable)"
    by (rule delncattr_absent_KeyError [OF m _ _ n]) simp_all
  moreover have "s3Variable_delncattr nc_private example_dimension_variable ''units''
          = (Inl KeyError, example_dimension_variable)"
    by (rule delncattr_absent_KeyError [OF dm _ _ dn]) simp_all
  ultimately show ?thesis
    by simp
qed

text \<open>
  An attribute that was set is read back from the variable, and setting it twice is
  setting it once.
\<close>

lemma setncattr_then_getncattr:
  "s3Variable_getncattr (s3Variable_setncattr v name x) name = Inr x"
  by (auto simp: s3Variable_getncattr_def s3Variable_setncattr_def nc_getncattr_def
      split: option.splits)

lemma setncattr_idempotent:
  "s3Variable_setncattr (s3Variable_setncattr v name x) name x = s3Variable_setncattr v name x"
  by (auto simp: s3Variable_setncattr_def split: option.splits)




section \<open>Properties of slice I/O\<close>

subsection \<open>Arrays\<close>

lemma slice_indices_distinct: "0 < s \<Longrightarrow> distinct (slice_indices n (a, b, s))"
  by (auto simp: slice_indices_def distinct_map inj_on_def)

lemma selection_distinct:
  "selection shp sls = Inr sel \<Longrightarrow> list_all distinct sel"
proof (induction shp sls arbitrary: sel rule: selection.induct)
  case (4 n ns a b s sls)
  then show ?case
    by (auto simp: slice_indices_distinct split: if_splits sum.splits)
qed (auto simp: list_all_iff)

lemma distinct_product_lists_sel:
  "list_all distinct sel \<Longrightarrow> distinct (product_lists sel)"
  by (simp add: distinct_product_lists list_all_iff)

lemma coords_distinct: "distinct (coords shp)"
  by (simp add: coords_def distinct_product_lists)

lemma length_coords: "length (coords shp) = prod_list shp"
  by (simp add: coords_def length_product_lists o_def prod_list.eq_foldr)

lemma length_coords_sel: "length (coords (map length sel)) = length (product_lists sel)"
  by (simp add: length_coords length_product_lists prod_list.eq_foldr)

lemma map_of_zip_miss: "c \<notin> set xs \<Longrightarrow> map_of (zip xs ys) c = None"
  by (induction xs ys rule: list_induct2') auto

lemma copy_cells_frame:
  "c \<notin> set (product_lists sel) \<Longrightarrow> cells (copy_cells arr sel v) c = cells arr c"
  by (simp add: copy_cells_def map_of_zip_miss)

lemma copy_cells_selected:
  assumes "distinct (product_lists sel)"
    and "length (product_lists sel) = length (coords (shape v))"
  shows "map (cells (copy_cells arr sel v)) (product_lists sel) = map (cells v) (coords (shape v))"
proof (rule nth_equalityI)
  show "length (map (cells (copy_cells arr sel v)) (product_lists sel))
        = length (map (cells v) (coords (shape v)))"
    using assms(2) by simp
next
  fix i assume "i < length (map (cells (copy_cells arr sel v)) (product_lists sel))"
  then have i: "i < length (product_lists sel)" by simp
  then have "map_of (zip (product_lists sel) (coords (shape v))) (product_lists sel ! i)
             = Some (coords (shape v) ! i)"
    using assms by (simp add: map_of_zip_nth)
  then show "map (cells (copy_cells arr sel v)) (product_lists sel) ! i
             = map (cells v) (coords (shape v)) ! i"
    using i assms(2) by (simp add: copy_cells_def)
qed

lemma copy_cells_shape: "shape (copy_cells arr sel v) = shape arr"
  by (simp add: copy_cells_def)

lemma array_getitem_cells:
  assumes "selection (shape arr) sls = Inr sel"
  shows "\<exists>slab. array_getitem arr sls = Inr slab \<and> shape slab = map length sel
          \<and> map (cells slab) (coords (shape slab)) = map (cells arr) (product_lists sel)"
proof -
  let ?slab = "\<lparr>shape = map length sel,
               cells = (\<lambda>c. case map_of (zip (coords (map length sel)) (product_lists sel)) c of
                              None \<Rightarrow> None
                            | Some c' \<Rightarrow> cells arr c')\<rparr>"
  have g: "array_getitem arr sls = Inr ?slab"
    using assms by (simp add: array_getitem_def)
  have "map (cells ?slab) (coords (map length sel)) = map (cells arr) (product_lists sel)"
  proof (rule nth_equalityI)
    show "length (map (cells ?slab) (coords (map length sel)))
          = length (map (cells arr) (product_lists sel))"
      by (simp add: length_coords_sel)
  next
    fix i assume "i < length (map (cells ?slab) (coords (map length sel)))"
    then have i: "i < length (coords (map length sel))" by simp
    then have "map_of (zip (coords (map length sel)) (product_lists sel))
                 (coords (map length sel) ! i) = Some (product_lists sel ! i)"
      by (simp add: map_of_zip_nth coords_distinct length_coords_sel)
    then show "map (cells ?slab) (coords (map length sel)) ! i
               = map (cells arr) (product_lists sel) ! i"
      using i by (simp add: length_coords_sel)
  qed
  then show ?thesis using g by simp
qed


subsection \<open>Reading\<close>

lemma request_absent:
  assumes "record_open fm uri" and "current_dataset fm store uri = None"
  shows "request_file fm store fits uri sz ''r''
          = (\<lparr>open_state = DOES_NOT_EXIST, data_object = None, file_object = None\<rparr>, fm)"
  using assms
  by (auto simp: record_open_def current_dataset_def request_file_def split: option.splits)

lemma request_open_present:
  assumes "record_open fm uri" and "current_dataset fm store uri = Some ds"
  shows "\<exists>ro fm1 fm2. request_file fm store fits uri sz ''r'' = (ro, fm1)
           \<and> open_state ro \<noteq> DOES_NOT_EXIST
           \<and> open_for_read fm1 store uri ro = Inr (ds, fm2)
           \<and> (\<forall>u. current_dataset fm2 store u = current_dataset fm store u)
           \<and> (\<forall>u. record_open fm u \<longrightarrow> record_open fm2 u)"
proof (cases "files fm uri")
  case None
  then have st: "store uri = Some ds"
    using assms(2) by (simp add: current_dataset_def)
  show ?thesis
    using None st
    by (auto simp: request_file_def open_for_read_def set_data_object_def Let_def
        current_dataset_def record_open_def)
next
  case (Some r)
  then have d: "data_object r = Some ds"
    using assms(2) by (simp add: current_dataset_def)
  have "open_state r \<in> {OPEN_NEW_IN_MEMORY, OPEN_NEW_ON_DISK,
                         OPEN_EXISTS_IN_MEMORY, OPEN_EXISTS_ON_DISK}"
    using assms(1) Some by (simp add: record_open_def)
  then show ?thesis
    using Some d
    by (auto simp: request_file_def open_for_read_def Let_def
        current_dataset_def record_open_def)
qed

lemma target_coords_sel:
  "selection shp (idx_target e) = Inr tsel \<Longrightarrow> target_coords shp e = product_lists tsel"
  by (simp add: target_coords_def)

lemma read_entry_step:
  assumes r: "readable store fm cv (shape tgt) e" and fv: "FillValue ncv = Some fv"
  shows "\<exists>fm' tgt'. read_entry ctx cv ncv store (fm, tgt) e = Inr (fm', tgt')
     \<and> shape tgt' = shape tgt
     \<and> (\<forall>u. current_dataset fm' store u = current_dataset fm store u)
     \<and> (\<forall>u. record_open fm u \<longrightarrow> record_open fm' u)
     \<and> (\<forall>c. c \<notin> set (target_coords (shape tgt) e) \<longrightarrow> cells tgt' c = cells tgt c)
     \<and> (case current_dataset fm store (p_file (idx_partition e)) of
          None \<Rightarrow> \<forall>c\<in>set (target_coords (shape tgt) e). cells tgt' c = Some fv
        | Some ds \<Rightarrow> map (cells tgt') (target_coords (shape tgt) e) = source_cells cv ds e)"
proof -
  let ?uri = "p_file (idx_partition e)"
  let ?sz = "prod_list (p_shape (idx_partition e))"
  have ro: "record_open fm ?uri"
    using r by (simp add: readable_def)
  obtain tsel where tsel: "selection (shape tgt) (idx_target e) = Inr tsel"
    using r by (auto simp: readable_def selected_shape_def split: sum.splits)
  note tc = target_coords_sel [OF tsel]
  show ?thesis
  proof (cases "current_dataset fm store ?uri")
    case None
    have rq: "request_file fm store (ctx_fits ctx) ?uri ?sz ''r''
          = (\<lparr>open_state = DOES_NOT_EXIST, data_object = None, file_object = None\<rparr>, fm)"
      by (rule request_absent [OF ro None])
    let ?t = "tgt\<lparr>cells := (\<lambda>c. if c \<in> set (product_lists tsel) then Some fv else cells tgt c)\<rparr>"
    have "read_entry ctx cv ncv store (fm, tgt) e = Inr (fm, ?t)"
      using rq fv tsel by (simp add: read_entry_def array_fill_def)
    then show ?thesis
      using None tc by simp
  next
    case (Some ds)
    obtain ro' fm1 fm2 where rq: "request_file fm store (ctx_fits ctx) ?uri ?sz ''r'' = (ro', fm1)"
      and nd: "open_state ro' \<noteq> DOES_NOT_EXIST"
      and op: "open_for_read fm1 store ?uri ro' = Inr (ds, fm2)"
      and cd: "\<forall>u. current_dataset fm2 store u = current_dataset fm store u"
      and rp: "\<forall>u. record_open fm u \<longrightarrow> record_open fm2 u"
      using request_open_present [OF ro Some] by blast
    obtain fld where fld: "field_variable cv ds = Inr fld"
      and shp: "selected_shape (shape (ncv_data fld)) (idx_source e)
                 = selected_shape (shape tgt) (idx_target e)"
      using r Some by (auto simp: readable_def split: sum.splits)
    obtain ssel where ssel: "selection (shape (ncv_data fld)) (idx_source e) = Inr ssel"
      and len: "map length ssel = map length tsel"
      using shp tsel by (auto simp: selected_shape_def split: sum.splits)
    obtain slab where slab: "array_getitem (ncv_data fld) (idx_source e) = Inr slab"
      and sshape: "shape slab = map length ssel"
      and scells: "map (cells slab) (coords (shape slab))
                    = map (cells (ncv_data fld)) (product_lists ssel)"
      using array_getitem_cells [OF ssel] by blast
    have set: "array_setitem tgt (idx_target e) slab = Inr (copy_cells tgt tsel slab)"
      using tsel len sshape by (simp add: array_setitem_def)
    have run: "read_entry ctx cv ncv store (fm, tgt) e = Inr (fm2, copy_cells tgt tsel slab)"
      using rq nd op fld slab set by (simp add: read_entry_def)
    have dist: "distinct (product_lists tsel)"
      using selection_distinct [OF tsel] by (rule distinct_product_lists_sel)
    have leq: "length (product_lists tsel) = length (coords (shape slab))"
      using sshape len by (simp add: length_coords_sel)
    have "map (cells (copy_cells tgt tsel slab)) (product_lists tsel) = source_cells cv ds e"
      using copy_cells_selected [OF dist leq] scells fld ssel
      by (simp add: source_cells_def)
    then show ?thesis
      using run Some tc cd rp by (simp add: copy_cells_shape copy_cells_frame)
  qed
qed


lemma readable_preserved:
  assumes "readable store fm cv shp e"
    and "\<forall>u. current_dataset fm' store u = current_dataset fm store u"
    and "\<forall>u. record_open fm u \<longrightarrow> record_open fm' u"
  shows "readable store fm' cv shp e"
  using assms by (simp add: readable_def)

lemma read_entries_result:
  assumes fv: "FillValue ncv = Some fv"
  shows "list_all (readable store fm cv (shape tgt)) es \<Longrightarrow> disjoint_targets (shape tgt) es \<Longrightarrow>
     \<exists>fm' res. read_entries ctx cv ncv store (fm, tgt) es = Inr (fm', res)
       \<and> shape res = shape tgt
       \<and> (\<forall>c. (\<forall>e\<in>set es. c \<notin> set (target_coords (shape tgt) e)) \<longrightarrow> cells res c = cells tgt c)
       \<and> (\<forall>e\<in>set es.
            case current_dataset fm store (p_file (idx_partition e)) of
              None \<Rightarrow> \<forall>c\<in>set (target_coords (shape tgt) e). cells res c = Some fv
            | Some ds \<Rightarrow> map (cells res) (target_coords (shape tgt) e) = source_cells cv ds e)"
proof (induction es arbitrary: fm tgt)
  case Nil
  then show ?case by simp
next
  case (Cons e es)
  let ?T = "target_coords (shape tgt)"
  have re: "readable store fm cv (shape tgt) e"
    and res: "list_all (readable store fm cv (shape tgt)) es"
    using Cons.prems(1) by simp_all
  have dis: "\<forall>e'\<in>set es. set (?T e) \<inter> set (?T e') = {}"
    and dis': "disjoint_targets (shape tgt) es"
    using Cons.prems(2) by (simp_all add: list_all_iff)
  obtain fm1 tgt1 where step: "read_entry ctx cv ncv store (fm, tgt) e = Inr (fm1, tgt1)"
    and sh1: "shape tgt1 = shape tgt"
    and cd1: "\<forall>u. current_dataset fm1 store u = current_dataset fm store u"
    and ro1: "\<forall>u. record_open fm u \<longrightarrow> record_open fm1 u"
    and fr1: "\<forall>c. c \<notin> set (?T e) \<longrightarrow> cells tgt1 c = cells tgt c"
    and hd1: "case current_dataset fm store (p_file (idx_partition e)) of
                None \<Rightarrow> \<forall>c\<in>set (?T e). cells tgt1 c = Some fv
              | Some ds \<Rightarrow> map (cells tgt1) (?T e) = source_cells cv ds e"
    using read_entry_step [OF re fv, of ctx] by blast
  have res1: "list_all (readable store fm1 cv (shape tgt1)) es"
    using res cd1 ro1 sh1 by (auto simp: list_all_iff intro: readable_preserved)
  have dis1: "disjoint_targets (shape tgt1) es"
    using dis' sh1 by simp
  obtain fm' r where run: "read_entries ctx cv ncv store (fm1, tgt1) es = Inr (fm', r)"
    and shr: "shape r = shape tgt1"
    and frr: "\<forall>c. (\<forall>e'\<in>set es. c \<notin> set (target_coords (shape tgt1) e')) \<longrightarrow> cells r c = cells tgt1 c"
    and tlr: "\<forall>e'\<in>set es.
            case current_dataset fm1 store (p_file (idx_partition e')) of
              None \<Rightarrow> \<forall>c\<in>set (target_coords (shape tgt1) e'). cells r c = Some fv
            | Some ds \<Rightarrow> map (cells r) (target_coords (shape tgt1) e') = source_cells cv ds e'"
    using Cons.IH [OF res1 dis1] by blast
  have keep: "\<forall>c\<in>set (?T e). cells r c = cells tgt1 c"
    using frr dis sh1 by auto
  then have keepm: "map (cells r) (?T e) = map (cells tgt1) (?T e)"
    by simp
  have head: "case current_dataset fm store (p_file (idx_partition e)) of
                None \<Rightarrow> \<forall>c\<in>set (?T e). cells r c = Some fv
              | Some ds \<Rightarrow> map (cells r) (?T e) = source_cells cv ds e"
    using hd1 keep by (auto split: option.splits simp: keepm)
  have tail: "\<forall>e'\<in>set es.
            case current_dataset fm store (p_file (idx_partition e')) of
              None \<Rightarrow> \<forall>c\<in>set (?T e'). cells r c = Some fv
            | Some ds \<Rightarrow> map (cells r) (?T e') = source_cells cv ds e'"
    using tlr cd1 unfolding sh1 by simp
  have frame: "\<forall>c. (\<forall>e'\<in>set (e # es). c \<notin> set (?T e')) \<longrightarrow> cells r c = cells tgt c"
    using frr fr1 sh1 by simp
  have "read_entries ctx cv ncv store (fm, tgt) (e # es) = Inr (fm', r)"
    using step run by simp
  then show ?case
    using shr sh1 frame head tail by simp
qed

lemma request_array_shape:
  "shape (request_array index_list x) = bounding_box (map idx_target index_list)"
  by (simp add: request_array_def array_full_def)

text \<open>
  A read of a slice of a partitioned variable that has a \<open>_FillValue\<close>, for an index
  list of well-formed entries with pairwise disjoint targets: the read raises no error,
  the result has the shape of the bounding box of the targets, and for each entry of the
  index list, if its subarray file is absent (neither open in the file manager nor on the
  backing store) every cell of its target region holds the variable's \<open>_FillValue\<close>, and
  if the file exists the cells of its target region are, in order, the cells the source
  slice selects in the file's field variable.
\<close>

lemma getitem_with_fill_value:
  assumes "cfa_var v = Some cv"
    and "ctx_index ctx cv elem = Inr index_list"
    and "FillValue (nc_var v) = Some fv"
    and "shp = bounding_box (map idx_target index_list)"
    and "list_all (readable store fm cv shp) index_list"
    and "disjoint_targets shp index_list"
  shows "\<exists>res fm'. getitem ctx store fm v elem = Inr (res, fm')
       \<and> shape res = shp
       \<and> (\<forall>e\<in>set index_list.
            case current_dataset fm store (p_file (idx_partition e)) of
              None \<Rightarrow> \<forall>c\<in>set (target_coords shp e). cells res c = Some fv
            | Some ds \<Rightarrow> map (cells res) (target_coords shp e) = source_cells cv ds e)"
proof -
  let ?t = "request_array index_list (ctx_zero ctx)"
  have sh: "shape ?t = shp"
    using assms(4) by (simp add: request_array_shape)
  note R = read_entries_result [OF assms(3), of store fm cv ?t index_list ctx, unfolded sh,
      OF assms(5,6)]
  then obtain fm' res where "read_entries ctx cv (nc_var v) store (fm, ?t) index_list = Inr (fm', res)"
    and "shape res = shp"
    and "\<forall>e\<in>set index_list.
            case current_dataset fm store (p_file (idx_partition e)) of
              None \<Rightarrow> \<forall>c\<in>set (target_coords shp e). cells res c = Some fv
            | Some ds \<Rightarrow> map (cells res) (target_coords shp e) = source_cells cv ds e"
    by blast
  then show ?thesis
    using assms(1,2) by (simp add: getitem_def)
qed

subsection \<open>The sparse-write and the read-back scenario\<close>

lemma tile_index_whole:
  "tile_index cv whole_variable
     = Inr [tile_entry (0, 4) (0, 4) 0 0, tile_entry (0, 4) (0, 4) 0 1,
            tile_entry (0, 4) (0, 4) 1 0, tile_entry (0, 4) (0, 4) 1 1]"
  by (simp add: tile_index_def whole_variable_def overlap_def)

lemma getitem_with_fill_value_sparse:
  "cfa_var tile_variable = Some tile_cfa_variable
   \<and> ctx_index tile_context tile_cfa_variable whole_variable
       = Inr [tile_entry (0, 4) (0, 4) 0 0, tile_entry (0, 4) (0, 4) 0 1,
              tile_entry (0, 4) (0, 4) 1 0, tile_entry (0, 4) (0, 4) 1 1]
   \<and> FillValue (nc_var tile_variable) = Some (- 1)
   \<and> current_dataset no_files sparse_store (tile_file 0 0) = Some sevens
   \<and> current_dataset no_files sparse_store (tile_file 1 1) = None
   \<and> (\<exists>res fm'. getitem tile_context sparse_store no_files tile_variable whole_variable
                     = Inr (res, fm')
         \<and> shape res = [4, 4]
         \<and> map (cells res) [[0, 0], [0, 1], [1, 0], [1, 1]] = [Some 7, Some 7, Some 7, Some 7]
         \<and> map (cells res) [[2, 2], [2, 3], [3, 2], [3, 3]]
             = [Some (- 1), Some (- 1), Some (- 1), Some (- 1)])"
proof -
  let ?il = "[tile_entry (0, 4) (0, 4) 0 0, tile_entry (0, 4) (0, 4) 0 1,
              tile_entry (0, 4) (0, 4) 1 0, tile_entry (0, 4) (0, 4) 1 1]"
  have h1: "cfa_var tile_variable = Some tile_cfa_variable"
    by (simp add: tile_variable_def tile_cfa_variable_def)
  have h2: "ctx_index tile_context tile_cfa_variable whole_variable = Inr ?il"
    by (simp add: tile_context_def tile_index_whole)
  have h3: "FillValue (nc_var tile_variable) = Some (- 1)"
    by (simp add: tile_variable_def)
  have h4: "[4, 4] = bounding_box (map idx_target ?il)"
    by code_simp
  have h5: "list_all (readable sparse_store no_files tile_cfa_variable [4, 4]) ?il"
    by code_simp
  have h6: "disjoint_targets [4, 4] ?il"
    by code_simp
  have c00: "current_dataset no_files sparse_store (tile_file 0 0) = Some sevens"
    by (simp add: current_dataset_def no_files_def sparse_store_def)
  have c11: "current_dataset no_files sparse_store (tile_file 1 1) = None"
    by (simp add: current_dataset_def no_files_def sparse_store_def tile_file_def)
  have f00: "p_file (idx_partition (tile_entry (0, 4) (0, 4) 0 0)) = tile_file 0 0"
    and f11: "p_file (idx_partition (tile_entry (0, 4) (0, 4) 1 1)) = tile_file 1 1"
    by (simp_all add: tile_entry_def tile_partition_def overlap_def)
  have t00: "target_coords [4, 4] (tile_entry (0, 4) (0, 4) 0 0) = [[0, 0], [0, 1], [1, 0], [1, 1]]"
    by code_simp
  have t11: "target_coords [4, 4] (tile_entry (0, 4) (0, 4) 1 1) = [[2, 2], [2, 3], [3, 2], [3, 3]]"
    by code_simp
  have s00: "source_cells tile_cfa_variable sevens (tile_entry (0, 4) (0, 4) 0 0)
              = [Some 7, Some 7, Some 7, Some 7]"
    by code_simp
  obtain res fm' where run: "getitem tile_context sparse_store no_files tile_variable whole_variable
                     = Inr (res, fm')"
    and sh: "shape res = [4, 4]"
    and all: "\<forall>e\<in>set ?il.
            case current_dataset no_files sparse_store (p_file (idx_partition e)) of
              None \<Rightarrow> \<forall>c\<in>set (target_coords [4, 4] e). cells res c = Some (- 1)
            | Some ds \<Rightarrow> map (cells res) (target_coords [4, 4] e) = source_cells tile_cfa_variable ds e"
    using getitem_with_fill_value [OF h1 h2 h3 h4 h5 h6] by blast
  have "map (cells res) [[0, 0], [0, 1], [1, 0], [1, 1]] = [Some 7, Some 7, Some 7, Some 7]"
    using all [rule_format, of "tile_entry (0, 4) (0, 4) 0 0"] c00 f00 t00 s00 by simp
  moreover have "map (cells res) [[2, 2], [2, 3], [3, 2], [3, 3]]
             = [Some (- 1), Some (- 1), Some (- 1), Some (- 1)]"
    using all [rule_format, of "tile_entry (0, 4) (0, 4) 1 1"] c11 f11 t11 by simp
  ultimately have "\<exists>res fm'. getitem tile_context sparse_store no_files tile_variable whole_variable
                     = Inr (res, fm')
         \<and> shape res = [4, 4]
         \<and> map (cells res) [[0, 0], [0, 1], [1, 0], [1, 1]] = [Some 7, Some 7, Some 7, Some 7]
         \<and> map (cells res) [[2, 2], [2, 3], [3, 2], [3, 3]]
             = [Some (- 1), Some (- 1), Some (- 1), Some (- 1)]"
    using run sh by (intro exI [of _ res] exI [of _ fm'] conjI)
  then show ?thesis
    using h1 h2 h3 c00 c11 by (intro conjI)
qed

text \<open>
  The variable \<open>t\<close> of the scenarios is the one \<open>create\<close> makes in the dataset, with a
  fill value of \<open>-1\<close> and subarrays of shape \<open>2 \<times> 2\<close>.
\<close>

lemma tile_variable_created:
  "s3Variable_create (ParentDataset tile_dataset) ''t'' ''i4'' (DimTuple [''x'', ''y''])
     (Some (- 1)) (- 999) [2, 2] 0 = Inr tile_variable"
  by (simp add: s3Variable_create_def create_parent_def tile_dataset_def tile_context_def
      CFADataset_with_root_def tile_group_def CFAGroup_new_def cfa_createVariable_def
      nc_createVariable_def tile_variable_def nc_group.defs nc_dataset.defs)

text \<open>
  C1. The read-back scenario of the specification: writing a \<open>4 \<times> 4\<close> array to the whole
  of the freshly created variable \<open>t\<close>, which spans four partitions. The write fails at
  the first partition: the whole array is assigned to the \<open>2 \<times> 2\<close> source slice of the
  subarray's field variable, and its size does not conform to the slice. Nothing is read
  back.
\<close>

theorem setitem_whole_variable_fails:
  "setitem tile_context Map.empty no_files tile_variable whole_variable (array_full [4, 4] 1)
     = Inl IndexError"
proof -
  have "map_sum id (\<lambda>st. ())
          (setitem tile_context Map.empty no_files tile_variable whole_variable
             (array_full [4, 4] 1)) = Inl IndexError"
    by code_simp
  then show ?thesis
    by (cases "setitem tile_context Map.empty no_files tile_variable whole_variable
                 (array_full [4, 4] 1)") simp_all
qed

text \<open>
  A write that lies within one partition is read back as written.
\<close>

lemma roundtrip_one_partition:
  "(case setitem tile_context Map.empty no_files tile_variable [(0, 2, 1), (0, 2, 1)]
           (array_of [2, 2] [1, 2, 3, 4]) of
      Inl e \<Rightarrow> Inl e
    | Inr (fm, v) \<Rightarrow>
        map_sum id (elements \<circ> fst)
          (getitem tile_context Map.empty fm v [(0, 2, 1), (0, 2, 1)]))
   = Inr [Some 1, Some 2, Some 3, Some 4]"
  by code_simp

text \<open>
  A variable without a variable structure is read and written in its own netCDF4
  variable; the file manager is not involved.
\<close>

lemma classical_variable_inline:
  assumes "cfa_var v = None"
  shows "getitem ctx store fm v elem
           = map_sum id (\<lambda>a. (a, fm)) (array_getitem (ncv_data (nc_var v)) elem)"
    and "setitem ctx store fm v elem data
           = map_sum id (\<lambda>dat. (fm, v\<lparr>nc_var := (nc_var v)\<lparr>ncv_data := dat\<rparr>\<rparr>))
               (nc_array_setitem (ncv_data (nc_var v)) elem data)"
  using assms by (auto simp: getitem_def setitem_def split: sum.splits)

text \<open>
  C5. The sparse-write scenario of the specification, with the variable \<open>t\<close> created as
  the scenario creates it, without a \<open>fill_value\<close>: only the subarray file of the
  partition \<open>(0, 0)\<close> is on the backing store, and \<open>t[:, :]\<close> is read. The partition
  \<open>(0, 1)\<close> overlaps the slice and its file is absent; the read raises an
  \<open>AttributeError\<close> there, since the fill is taken from the \<open>_FillValue\<close> attribute of the
  netCDF4 variable, which has none. The same read with no subarray file at all raises
  the error at the first partition.
\<close>

theorem getitem_absent_partition_without_fill_value:
  "s3Variable_create (ParentDataset tile_dataset) ''t'' ''i4'' (DimTuple [''x'', ''y''])
     None (- 999) [2, 2] 0 = Inr unfilled_variable
   \<and> sparse_store (tile_file 0 1) = None
   \<and> getitem tile_context sparse_store no_files unfilled_variable whole_variable
       = Inl AttributeError
   \<and> getitem tile_context Map.empty no_files unfilled_variable whole_variable
       = Inl AttributeError"
proof -
  have c: "s3Variable_create (ParentDataset tile_dataset) ''t'' ''i4'' (DimTuple [''x'', ''y''])
     None (- 999) [2, 2] 0 = Inr unfilled_variable"
    by (simp add: s3Variable_create_def create_parent_def tile_dataset_def tile_context_def
        CFADataset_with_root_def tile_group_def CFAGroup_new_def cfa_createVariable_def
        nc_createVariable_def unfilled_variable_def nc_group.defs nc_dataset.defs)
  have a: "sparse_store (tile_file 0 1) = None"
    by (simp add: sparse_store_def tile_file_def)
  have "map_sum id (\<lambda>st. ())
          (getitem tile_context sparse_store no_files unfilled_variable whole_variable)
          = Inl AttributeError"
    by code_simp
  then have s: "getitem tile_context sparse_store no_files unfilled_variable whole_variable
          = Inl AttributeError"
    by (cases "getitem tile_context sparse_store no_files unfilled_variable whole_variable")
      simp_all
  have "map_sum id (\<lambda>st. ())
          (getitem tile_context Map.empty no_files unfilled_variable whole_variable)
          = Inl AttributeError"
    by code_simp
  then have e: "getitem tile_context Map.empty no_files unfilled_variable whole_variable
          = Inl AttributeError"
    by (cases "getitem tile_context Map.empty no_files unfilled_variable whole_variable")
      simp_all
  show ?thesis
    using c a s e by (intro conjI)
qed

end
